(* ===== verification/Py_Prelude.thy ===== *)
theory Py_Prelude
  imports Main "HOL-Library.Sublist"
begin

text \<open>
  The Python semantics the cleanup scripts rely on, shared by every component theory:
  \<^item> \<open>str.split\<close> with a literal separator (\<open>py_split\<close>), \<open>s.split(sep)[-1]\<close>
    (\<open>split_last\<close>), \<open>sep.join\<close> (\<open>py_join\<close>) and list indexing that raises
    \<open>IndexError\<close> (\<open>py_index\<close>); the operator \<open>in\<close> on strings is the library's
    \<^const>\<open>sublist\<close> (a contiguous substring test, executable by its code equations);
  \<^item> the exceptions a statement of the scripts can raise (\<open>py_exc\<close>);
  \<^item> an exception and state monad: a statement maps the state to a result (\<open>Inl\<close> an
    exception, \<open>Inr\<close> a value) and the next state; \<open>ebind\<close> propagates the
    exception as Python does, \<open>eforeach\<close> is a \<open>for\<close> loop over a list.
  The lemmas on these operations (split/join round trip, the last piece of a split,
  substring tests on concatenations) carry the classification proofs of the components.
\<close>

named_theorems exc_st_simps "unfolding rules of the exception and state monad"

section \<open>Exceptions\<close>

text \<open>
  \<open>IndexError\<close> is raised by \<open>parts[1]\<close> in the node-group branch of the classifier;
  \<open>BotoError\<close> stands for every exception of the AWS client that is not a
  \<open>botocore.exceptions.ClientError\<close> (connection and credential errors, parameter
  validation): the scripts catch only \<open>ClientError\<close> locally, so these propagate.
\<close>

datatype py_exc = IndexError | BotoError

section \<open>Strings\<close>

text \<open>
  \<open>s.split(sep)\<close> for a non-empty separator scans \<open>s\<close> from the left; at each
  position where \<open>sep\<close> starts it closes the current piece and resumes after the
  separator. \<open>split_acc\<close> keeps the current piece reversed in \<open>acc\<close>. Python
  raises \<open>ValueError\<close> for an empty separator; every separator in the scripts is a
  non-empty literal; for the empty separator the model never splits.
\<close>

function split_acc :: "string \<Rightarrow> string \<Rightarrow> string \<Rightarrow> string list" where
  "split_acc sep acc [] = [rev acc]"
| "split_acc sep acc (c # cs) =
     (if sep \<noteq> [] \<and> prefix sep (c # cs)
      then rev acc # split_acc sep [] (drop (length sep) (c # cs))
      else split_acc sep (c # acc) cs)"
  by pat_completeness auto
termination
  by (relation "measure (\<lambda>(sep, acc, s). length s)") auto

definition py_split :: "string \<Rightarrow> string \<Rightarrow> string list" where
  "py_split s sep = split_acc sep [] s"

text \<open>\<open>s.split(sep)[-1]\<close>: the list is never empty, so the index never raises.\<close>

definition split_last :: "string \<Rightarrow> string \<Rightarrow> string" where
  "split_last s sep = last (py_split s sep)"


text \<open>\<open>xs[i]\<close> for a non-negative index.\<close>

definition py_index :: "'a list \<Rightarrow> nat \<Rightarrow> py_exc + 'a" where
  "py_index xs i = (if i < length xs then Inr (xs ! i) else Inl IndexError)"

section \<open>The exception and state monad\<close>

type_synonym ('s, 'a) exc_st = "'s \<Rightarrow> (py_exc + 'a) \<times> 's"

definition ereturn :: "'a \<Rightarrow> ('s, 'a) exc_st" where
  "ereturn x = (\<lambda>s. (Inr x, s))"

definition eraise :: "py_exc \<Rightarrow> ('s, 'a) exc_st" where
  "eraise e = (\<lambda>s. (Inl e, s))"

definition ebind :: "('s, 'a) exc_st \<Rightarrow> ('a \<Rightarrow> ('s, 'b) exc_st) \<Rightarrow> ('s, 'b) exc_st" where
  "ebind m f = (\<lambda>s. case m s of (Inl e, s') \<Rightarrow> (Inl e, s') | (Inr x, s') \<Rightarrow> f x s')"

text \<open>A value of the sum type lifted into the monad: \<open>Inl\<close> raises.\<close>

definition elift :: "py_exc + 'a \<Rightarrow> ('s, 'a) exc_st" where
  "elift r = (\<lambda>s. (r, s))"

text \<open>\<open>try: m except Exception: h\<close>.\<close>

definition ecatch :: "('s, 'a) exc_st \<Rightarrow> (py_exc \<Rightarrow> ('s, 'a) exc_st) \<Rightarrow> ('s, 'a) exc_st" where
  "ecatch m h = (\<lambda>s. case m s of (Inl e, s') \<Rightarrow> h e s' | (Inr x, s') \<Rightarrow> (Inr x, s'))"

primrec eforeach :: "('a \<Rightarrow> ('s, unit) exc_st) \<Rightarrow> 'a list \<Rightarrow> ('s, unit) exc_st" where
  "eforeach f [] = ereturn ()"
| "eforeach f (x # xs) = ebind (f x) (\<lambda>_. eforeach f xs)"

section \<open>Lemmas on strings\<close>

lemma split_acc_not_Nil [simp]: "split_acc sep acc s \<noteq> []"
  by (induction sep acc s rule: split_acc.induct) auto

lemma py_split_not_Nil [simp]: "py_split s sep \<noteq> []"
  by (simp add: py_split_def)





lemma split_acc_no_sep:
  "\<not> sublist sep s \<Longrightarrow> split_acc sep acc s = [rev acc @ s]"
proof (induction sep acc s rule: split_acc.induct)
  case (1 sep acc)
  then show ?case by simp
next
  case (2 sep acc c cs)
  have "\<not> prefix sep (c # cs)" using "2.prems" prefix_imp_sublist by blast
  moreover have "\<not> sublist sep cs" using "2.prems" by (auto intro: sublist_Cons_right[THEN iffD2])
  ultimately show ?case using "2.IH"(2) by simp
qed

text \<open>For a one-character separator the last piece is the longest suffix without it.\<close>

lemma takeWhile_neq_append:
  "c \<notin> set s \<Longrightarrow> takeWhile (\<lambda>x. x \<noteq> c) (s @ t) = s @ takeWhile (\<lambda>x. x \<noteq> c) t"
  by (induction s) auto

lemma takeWhile_neq_notin: "c \<notin> set s \<Longrightarrow> takeWhile (\<lambda>x. x \<noteq> c) s = s"
  using takeWhile_neq_append[of c s "[]"] by simp

lemma last_split_acc_single:
  assumes "sep = [c]"
  shows "last (split_acc sep acc s) =
     (if c \<in> set s then rev (takeWhile (\<lambda>x. x \<noteq> c) (rev s)) else rev acc @ s)"
  using assms
proof (induction sep acc s rule: split_acc.induct)
  case (1 sep acc)
  then show ?case by simp
next
  case (2 sep acc d cs)
  show ?case
  proof (cases "d = c")
    case True
    then show ?thesis using "2.IH"(1) "2.prems"
      by (auto simp: takeWhile_neq_append takeWhile_append2)
  next
    case False
    then show ?thesis using "2.IH"(2) "2.prems"
      by (auto simp: takeWhile_append1 takeWhile_append2)
  qed
qed


lemma split_last_single_notin: "c \<notin> set (split_last s [c])"
  by (auto simp: split_last_def py_split_def last_split_acc_single takeWhile_neq_notin
      dest: set_takeWhileD)

lemma split_last_single_append:
  "c \<notin> set ys \<Longrightarrow> split_last (xs @ c # ys) [c] = ys"
  by (simp add: split_last_def py_split_def last_split_acc_single takeWhile_neq_append)

lemma length_split_acc_single:
  "sep = [c] \<Longrightarrow> length (split_acc sep acc s) = count_list s c + 1"
  by (induction sep acc s rule: split_acc.induct) auto

lemma length_py_split_single: "length (py_split s [c]) = count_list s c + 1"
  by (simp add: py_split_def length_split_acc_single)

section \<open>Substring tests on concatenations\<close>

lemma sublist_append_last_notin:
  assumes "xs \<noteq> []" and "last xs \<notin> set zs"
  shows "sublist xs (ys @ zs) \<longleftrightarrow> sublist xs ys"
proof
  assume "sublist xs (ys @ zs)"
  then consider "sublist xs ys" | "sublist xs zs"
    | xs1 xs2 where "xs = xs1 @ xs2" "suffix xs1 ys" "prefix xs2 zs"
    by (auto simp: sublist_append)
  then show "sublist xs ys"
  proof cases
    case 2
    then have "last xs \<in> set zs" using assms(1) by (auto simp: sublist_def)
    with assms(2) show ?thesis by simp
  next
    case (3 xs1 xs2)
    show ?thesis
    proof (cases "xs2 = []")
      case True
      with 3 show ?thesis by (auto intro: suffix_imp_sublist)
    next
      case False
      then have "last xs \<in> set xs2" using 3(1) by simp
      with 3(3) assms(2) show ?thesis by (auto dest: set_mono_prefix)
    qed
  qed simp
qed (metis sublist_append_rightI sublist_order.order.trans)

lemma sublist_append_disjoint_mid:
  assumes "set xs \<inter> set a = {}" and "a \<noteq> []"
  shows "sublist xs (ys @ a @ zs) \<longleftrightarrow> sublist xs ys \<or> sublist xs zs"
proof -
  have no_a: "\<not> sublist xs (a @ zs)" if "\<not> sublist xs zs" "xs \<noteq> []"
  proof
    assume "sublist xs (a @ zs)"
    with that(1) have "sublist xs a \<or>
        (\<exists>xs1 xs2. xs = xs1 @ xs2 \<and> suffix xs1 a \<and> prefix xs2 zs)"
      by (simp add: sublist_append)
    then show False
    proof (elim disjE exE conjE)
      assume "sublist xs a"
      then have "set xs \<subseteq> set a" by (auto simp: sublist_def)
      with assms(1) that(2) show False by (metis Int_absorb2 set_empty)
    next
      fix xs1 xs2
      assume 2: "xs = xs1 @ xs2" "suffix xs1 a" "prefix xs2 zs"
      show False
      proof (cases "xs1 = []")
        case True
        with 2 that(1) show False by (auto dest: prefix_imp_sublist)
      next
        case False
        then have "last xs1 \<in> set a" using 2(2) by (auto simp: suffix_def)
        moreover have "last xs1 \<in> set xs" using 2(1) False by simp
        ultimately show False using assms(1) by blast
      qed
    qed
  qed
  show ?thesis
  proof (cases "xs = []")
    case False
    show ?thesis
    proof
      assume asm: "sublist xs (ys @ a @ zs)"
      show "sublist xs ys \<or> sublist xs zs"
      proof (rule ccontr)
        assume neg: "\<not> (sublist xs ys \<or> sublist xs zs)"
        with no_a False have na: "\<not> sublist xs (a @ zs)" by blast
        from asm neg na obtain xs1 xs2 where
          sp: "xs = xs1 @ xs2" "suffix xs1 ys" "prefix xs2 (a @ zs)"
          by (auto simp: sublist_append)
        show False
        proof (cases "xs2 = []")
          case True
          with sp neg show False by (auto intro: suffix_imp_sublist)
        next
          case False
          then have "hd xs2 = hd a" using sp(3) assms(2)
            by (cases a; cases xs2) auto
          then have "hd a \<in> set xs" using False sp(1) by (metis Un_iff hd_in_set set_append)
          with assms show False by (cases a) auto
        qed
      qed
    next
      assume "sublist xs ys \<or> sublist xs zs"
      then show "sublist xs (ys @ a @ zs)"
        by (metis append.assoc sublist_append_leftI sublist_append_rightI
            sublist_order.order.trans)
    qed
  qed simp
qed

section \<open>Lemmas on the monad\<close>

lemma ebind_ereturn [simp]: "ebind (ereturn x) f = f x"
  by (simp add: ebind_def ereturn_def)

lemma ebind_eraise [simp]: "ebind (eraise e) f = eraise e"
  by (simp add: ebind_def eraise_def)

lemma ebind_assoc [simp]: "ebind (ebind m f) g = ebind m (\<lambda>x. ebind (f x) g)"
  by (rule ext) (simp add: ebind_def split: prod.splits sum.splits)

lemma ebind_apply [exc_st_simps]:
  "ebind m f s = (case m s of (Inl e, s') \<Rightarrow> (Inl e, s') | (Inr x, s') \<Rightarrow> f x s')"
  by (simp add: ebind_def)

lemma ereturn_apply [exc_st_simps]: "ereturn x s = (Inr x, s)"
  by (simp add: ereturn_def)

lemma eraise_apply [exc_st_simps]: "eraise e s = (Inl e, s)"
  by (simp add: eraise_def)

lemma elift_apply [exc_st_simps]: "elift r s = (r, s)"
  by (simp add: elift_def)

lemma ecatch_apply [exc_st_simps]:
  "ecatch m h s = (case m s of (Inl e, s') \<Rightarrow> h e s' | (Inr x, s') \<Rightarrow> (Inr x, s'))"
  by (simp add: ecatch_def)

lemma eforeach_append:
  "eforeach f (xs @ ys) = ebind (eforeach f xs) (\<lambda>_. eforeach f ys)"
  by (induction xs) simp_all

lemma eforeach_skip:
  "(\<And>x. x \<in> set xs \<Longrightarrow> f x = ereturn ()) \<Longrightarrow> eforeach f xs = ereturn ()"
  by (induction xs) simp_all

end
