(* ===== verification/Cloud_Api.thy ===== *)
theory Cloud_Api
  imports Py_Prelude
begin

text \<open>
  The interface between the script \<open>src/scripts/cleanup.py\<close> and AWS. The script's
  globals (\<open>REGIONS\<close>, \<open>TAG_KEY\<close>, \<open>TAG_VALUES\<close>, \<open>DRY_RUN\<close>) form a \<open>config\<close>
  record, so that the dry-run mode can be reasoned about as well as the shipped
  setting. Every boto3 request the script makes is a constructor of \<open>api_call\<close>
  (region first); what the script observes is an \<open>event\<close> trace: each request with
  its \<open>outcome\<close>, and each \<open>time.sleep\<close>. AWS itself is not modelled: a \<open>cloud\<close>
  is any function from the trace so far and the request to the reply, so every
  theorem holds for every behaviour of the service (failures, eventual consistency,
  dependency violations). Logging (\<open>log\<close>, \<open>Colors\<close>) writes only to standard output
  and is not modelled.
\<close>

section \<open>Configuration\<close>

record config =
  cfg_regions :: "string list"
  cfg_tag_key :: string
  cfg_tag_values :: "string list"
  cfg_dry_run :: bool

definition REGIONS :: "string list" where
  "REGIONS = [''us-east-1'', ''eu-central-1'', ''ap-south-1'']"

definition TAG_KEY :: string where
  "TAG_KEY = ''ManagedBy''"

definition TAG_VALUES :: "string list" where
  "TAG_VALUES = [''terraform'', ''Terraform'']"

definition DRY_RUN :: bool where
  "DRY_RUN = False"

definition script_config :: config where
  "script_config = \<lparr>cfg_regions = REGIONS, cfg_tag_key = TAG_KEY,
     cfg_tag_values = TAG_VALUES, cfg_dry_run = DRY_RUN\<rparr>"

section \<open>Requests, replies and the event trace\<close>

text \<open>
  An item of \<open>ResourceTagMappingList\<close>: the script reads only its \<open>ResourceARN\<close>.
  An item of \<open>describe_internet_gateways\<close>: its id and the \<open>VpcId\<close> of each
  attachment, in order.
\<close>

record tagged_resource =
  resource_arn :: string

record igw_desc =
  igw_id :: string
  igw_attachments :: "string list"

datatype api_call =
    Get_resources string string string
  | Describe_internet_gateways string "string list"
  | Delete_nodegroup string string string
  | Delete_cluster string string
  | Delete_cache_cluster string string
  | Delete_replication_group string string
  | Delete_db_cluster string string
  | Delete_load_balancer string string
  | Delete_target_group string string
  | Delete_nat_gateway string string
  | Detach_internet_gateway string string string
  | Delete_internet_gateway string string
  | Delete_subnet string string
  | Delete_route_table string string
  | Delete_security_group string string
  | Delete_vpc string string
  | Delete_launch_template string string
  | Delete_snapshot string string
  | Delete_cache_parameter_group string string
  | Delete_cache_subnet_group string string
  | Delete_db_cluster_parameter_group string string
  | Delete_db_subnet_group string string

text \<open>
  \<open>Client_error\<close> is a \<open>botocore.exceptions.ClientError\<close> (the service refused);
  \<open>Other_error\<close> any other exception raised by the client.
\<close>

datatype outcome = Success | Client_error | Other_error

datatype event = Call api_call outcome | Sleep nat

text \<open>
  The service: the outcome of each request, the pages a \<open>get_resources\<close> paginator
  yields together with how the pagination ended, and the gateways a successful
  \<open>describe_internet_gateways\<close> returns; each may depend on everything before.
\<close>

record cloud =
  call_outcome :: "event list \<Rightarrow> api_call \<Rightarrow> outcome"
  tag_pages :: "event list \<Rightarrow> string \<Rightarrow> string \<Rightarrow> string \<Rightarrow> tagged_resource list list \<times> outcome"
  igw_descriptions :: "event list \<Rightarrow> string \<Rightarrow> string list \<Rightarrow> igw_desc list"

type_synonym 'a aws = "(event list, 'a) exc_st"

text \<open>
  One request inside \<open>try: ... except ClientError\<close>: the result says whether it
  succeeded; a \<open>ClientError\<close> is caught by the caller, any other exception propagates.
\<close>

definition aws_call :: "cloud \<Rightarrow> api_call \<Rightarrow> bool aws" where
  "aws_call env c = (\<lambda>tr.
     (case call_outcome env tr c of
        Success \<Rightarrow> (Inr True, tr @ [Call c Success])
      | Client_error \<Rightarrow> (Inr False, tr @ [Call c Client_error])
      | Other_error \<Rightarrow> (Inl BotoError, tr @ [Call c Other_error])))"

definition sleep :: "nat \<Rightarrow> unit aws" where
  "sleep n = (\<lambda>tr. (Inr (), tr @ [Sleep n]))"

text \<open>
  The requests that delete or detach something, and the resource each acts on.
\<close>

fun mutating :: "api_call \<Rightarrow> bool" where
  "mutating (Get_resources _ _ _) = False"
| "mutating (Describe_internet_gateways _ _) = False"
| "mutating _ = True"

fun call_region :: "api_call \<Rightarrow> string" where
  "call_region (Get_resources r _ _) = r"
| "call_region (Describe_internet_gateways r _) = r"
| "call_region (Delete_nodegroup r _ _) = r"
| "call_region (Delete_cluster r _) = r"
| "call_region (Delete_cache_cluster r _) = r"
| "call_region (Delete_replication_group r _) = r"
| "call_region (Delete_db_cluster r _) = r"
| "call_region (Delete_load_balancer r _) = r"
| "call_region (Delete_target_group r _) = r"
| "call_region (Delete_nat_gateway r _) = r"
| "call_region (Detach_internet_gateway r _ _) = r"
| "call_region (Delete_internet_gateway r _) = r"
| "call_region (Delete_subnet r _) = r"
| "call_region (Delete_route_table r _) = r"
| "call_region (Delete_security_group r _) = r"
| "call_region (Delete_vpc r _) = r"
| "call_region (Delete_launch_template r _) = r"
| "call_region (Delete_snapshot r _) = r"
| "call_region (Delete_cache_parameter_group r _) = r"
| "call_region (Delete_cache_subnet_group r _) = r"
| "call_region (Delete_db_cluster_parameter_group r _) = r"
| "call_region (Delete_db_subnet_group r _) = r"

text \<open>Every request of a trace is addressed to the region \<open>r\<close>.\<close>

definition in_region :: "string \<Rightarrow> event list \<Rightarrow> bool" where
  "in_region r evs \<longleftrightarrow> list_all (\<lambda>e. case e of Call c _ \<Rightarrow> call_region c = r | Sleep _ \<Rightarrow> True) evs"

fun call_of :: "event \<Rightarrow> api_call option" where
  "call_of (Call c _) = Some c"
| "call_of (Sleep _) = None"

definition mutations :: "event list \<Rightarrow> api_call list" where
  "mutations evs = [c. Call c _ \<leftarrow> evs, mutating c]"

fun sleep_of :: "event \<Rightarrow> nat" where
  "sleep_of (Sleep n) = n"
| "sleep_of (Call _ _) = 0"

definition slept :: "event list \<Rightarrow> nat" where
  "slept evs = sum_list (map sleep_of evs)"

text \<open>
  Two concrete services for witnesses: one that refuses every request with a
  \<open>ClientError\<close>, and one that accepts every request, lists a fixed inventory and
  reports every gateway attached to \<open>vpc-1\<close>.
\<close>

definition refusing_cloud :: cloud where
  "refusing_cloud = \<lparr>call_outcome = (\<lambda>tr c. Client_error),
     tag_pages = (\<lambda>tr r k v. ([], Client_error)), igw_descriptions = (\<lambda>tr r ids. [])\<rparr>"

definition accepting_cloud :: "(string \<Rightarrow> string \<Rightarrow> string \<Rightarrow> tagged_resource list list \<times> outcome) \<Rightarrow> cloud" where
  "accepting_cloud listing = \<lparr>call_outcome = (\<lambda>tr c. Success),
     tag_pages = (\<lambda>tr. listing),
     igw_descriptions = (\<lambda>tr r ids. map (\<lambda>i. \<lparr>igw_id = i, igw_attachments = [''vpc-1'']\<rparr>) ids)\<rparr>"

section \<open>Programs that only append to the trace\<close>

text \<open>
  \<open>appends m P\<close>: from every trace, \<open>m\<close> appends events satisfying \<open>P\<close>
  and never rewrites what happened before, exception or not.
\<close>

definition appends :: "'a aws \<Rightarrow> (event list \<Rightarrow> bool) \<Rightarrow> bool" where
  "appends m P \<longleftrightarrow> (\<forall>tr. \<exists>new. snd (m tr) = tr @ new \<and> P new)"

lemma appendsI:
  "(\<And>tr. \<exists>new. snd (m tr) = tr @ new \<and> P new) \<Longrightarrow> appends m P"
  by (simp add: appends_def)

lemma appendsD:
  "appends m P \<Longrightarrow> \<exists>new. snd (m tr) = tr @ new \<and> P new"
  by (simp add: appends_def)

lemma appends_mono:
  "appends m P \<Longrightarrow> (\<And>evs. P evs \<Longrightarrow> Q evs) \<Longrightarrow> appends m Q"
  unfolding appends_def by blast

lemma appends_ereturn: "P [] \<Longrightarrow> appends (ereturn x) P"
  by (simp add: appends_def ereturn_def)

lemma appends_eraise: "P [] \<Longrightarrow> appends (eraise e) P"
  by (simp add: appends_def eraise_def)

lemma appends_elift: "P [] \<Longrightarrow> appends (elift r) P"
  by (simp add: appends_def elift_def)

lemma appends_aws_call: "(\<And>r. P [Call c r]) \<Longrightarrow> appends (aws_call env c) P"
  by (auto simp: appends_def aws_call_def split: outcome.splits)

lemma appends_sleep: "P [Sleep n] \<Longrightarrow> appends (sleep n) P"
  by (simp add: appends_def sleep_def)

text \<open>
  Sequencing: \<open>P\<close> must be closed under appending what the continuation adds;
  prefix-closure is not needed since an exception only stops the trace.
\<close>

lemma appends_ebind:
  assumes m: "appends m P" and f: "\<And>x. appends (f x) Q"
    and PQ: "\<And>a b. P a \<Longrightarrow> Q b \<Longrightarrow> R (a @ b)" and P: "\<And>a. P a \<Longrightarrow> R a"
  shows "appends (ebind m f) R"
proof (rule appendsI)
  fix tr
  obtain new where n: "snd (m tr) = tr @ new" "P new" using appendsD[OF m] by blast
  obtain r where mtr: "m tr = (r, tr @ new)" using n(1) by (metis prod.collapse)
  show "\<exists>new. snd (ebind m f tr) = tr @ new \<and> R new"
  proof (cases r)
    case (Inl e)
    then have "ebind m f tr = (Inl e, tr @ new)" using mtr by (simp add: ebind_def)
    with n(2) P show ?thesis by auto
  next
    case (Inr x)
    obtain new' where n': "snd (f x (tr @ new)) = tr @ new @ new'" "Q new'"
      using appendsD[OF f, of x "tr @ new"] by auto
    have "ebind m f tr = f x (tr @ new)" using Inr mtr by (simp add: ebind_def)
    with n' n(2) PQ show ?thesis by auto
  qed
qed

lemma appends_eforeach:
  assumes "\<And>x. x \<in> set xs \<Longrightarrow> appends (f x) P" and "P []"
    and "\<And>a b. P a \<Longrightarrow> P b \<Longrightarrow> P (a @ b)"
  shows "appends (eforeach f xs) P"
  using assms(1)
proof (induction xs)
  case Nil
  then show ?case by (simp add: appends_ereturn assms(2))
next
  case (Cons x xs)
  then show ?case
    by (simp add: appends_ebind[where P = P and Q = P] assms(3))
qed

section \<open>Lemmas on traces\<close>

lemma mutations_append [simp]: "mutations (a @ b) = mutations a @ mutations b"
  by (simp add: mutations_def)

lemma mutations_Call [simp]:
  "mutations (Call c r # evs) = (if mutating c then c # mutations evs else mutations evs)"
  by (simp add: mutations_def)

lemma mutations_Sleep [simp]: "mutations (Sleep n # evs) = mutations evs"
  by (simp add: mutations_def)

lemma mutations_Nil [simp]: "mutations [] = []"
  by (simp add: mutations_def)

lemma in_region_Nil [simp]: "in_region r []"
  by (simp add: in_region_def)

lemma in_region_append [simp]: "in_region r (a @ b) \<longleftrightarrow> in_region r a \<and> in_region r b"
  by (simp add: in_region_def)

lemma in_region_Call [simp]: "in_region r (Call c x # evs) \<longleftrightarrow> call_region c = r \<and> in_region r evs"
  by (simp add: in_region_def)

lemma in_region_Sleep [simp]: "in_region r (Sleep n # evs) \<longleftrightarrow> in_region r evs"
  by (simp add: in_region_def)

lemma appends_ebind_same:
  "appends m P \<Longrightarrow> (\<And>x. appends (f x) P) \<Longrightarrow> (\<And>a b. P a \<Longrightarrow> P b \<Longrightarrow> P (a @ b))
   \<Longrightarrow> appends (ebind m f) P"
  by (rule appends_ebind[where Q = P]) auto

lemma slept_append [simp]: "slept (a @ b) = slept a + slept b"
  by (simp add: slept_def)

lemma slept_Call [simp]: "slept (Call c r # evs) = slept evs"
  by (simp add: slept_def)

lemma slept_Sleep [simp]: "slept (Sleep n # evs) = n + slept evs"
  by (simp add: slept_def)

lemma slept_Nil [simp]: "slept [] = 0"
  by (simp add: slept_def)

end
