(* ===== verification/Deleters.thy ===== *)
theory Deleters
  imports Cloud_Api
begin

text \<open>
  The nineteen \<open>delete_*\<close> functions of \<open>src/scripts/cleanup.py\<close> and
  \<open>get_igw_vpc_mapping\<close>. Seventeen of the deleters have one shape: return at once on
  an empty list; otherwise, for each item, unless \<open>DRY_RUN\<close>, send one request inside
  \<open>try ... except ClientError\<close>. That shape is \<open>delete_each\<close>; each deleter is
  \<open>delete_each\<close> with its request constructor. \<open>delete_nat_gateways\<close> also sleeps
  60 seconds after its loop; \<open>delete_internet_gateways\<close> sends two requests per
  gateway in one \<open>try\<close>, so a failed detach skips the delete.

  The lemmas give the exact trace each deleter appends: in live mode one request per
  item, in order, whatever the service answers (a \<open>ClientError\<close> never stops the
  loop); in dry-run mode nothing.
\<close>

section \<open>The common loop\<close>

definition delete_each :: "config \<Rightarrow> cloud \<Rightarrow> ('a \<Rightarrow> api_call) \<Rightarrow> 'a list \<Rightarrow> unit aws" where
  "delete_each cfg env mk xs =
     (if xs = [] then ereturn ()
      else eforeach (\<lambda>x. if cfg_dry_run cfg then ereturn ()
                         else ebind (aws_call env (mk x)) (\<lambda>_. ereturn ())) xs)"

section \<open>The deleters\<close>

definition delete_eks_nodegroups :: "config \<Rightarrow> cloud \<Rightarrow> string \<Rightarrow> (string \<times> string) list \<Rightarrow> unit aws" where
  "delete_eks_nodegroups cfg env region nodegroups =
     delete_each cfg env (\<lambda>(cluster_name, nodegroup_name).
       Delete_nodegroup region cluster_name nodegroup_name) nodegroups"

definition delete_eks_clusters :: "config \<Rightarrow> cloud \<Rightarrow> string \<Rightarrow> string list \<Rightarrow> unit aws" where
  "delete_eks_clusters cfg env region cluster_names =
     delete_each cfg env (Delete_cluster region) cluster_names"

definition delete_elasticache_clusters :: "config \<Rightarrow> cloud \<Rightarrow> string \<Rightarrow> string list \<Rightarrow> unit aws" where
  "delete_elasticache_clusters cfg env region cache_clusters =
     delete_each cfg env (Delete_cache_cluster region) cache_clusters"

definition delete_elasticache_replication_groups :: "config \<Rightarrow> cloud \<Rightarrow> string \<Rightarrow> string list \<Rightarrow> unit aws" where
  "delete_elasticache_replication_groups cfg env region repl_groups =
     delete_each cfg env (Delete_replication_group region) repl_groups"

definition delete_rds_clusters :: "config \<Rightarrow> cloud \<Rightarrow> string \<Rightarrow> string list \<Rightarrow> unit aws" where
  "delete_rds_clusters cfg env region cluster_ids =
     delete_each cfg env (Delete_db_cluster region) cluster_ids"

definition delete_load_balancers :: "config \<Rightarrow> cloud \<Rightarrow> string \<Rightarrow> string list \<Rightarrow> unit aws" where
  "delete_load_balancers cfg env region lb_arns =
     delete_each cfg env (Delete_load_balancer region) lb_arns"

definition delete_target_groups :: "config \<Rightarrow> cloud \<Rightarrow> string \<Rightarrow> string list \<Rightarrow> unit aws" where
  "delete_target_groups cfg env region tg_arns =
     delete_each cfg env (Delete_target_group region) tg_arns"

definition delete_nat_gateways :: "config \<Rightarrow> cloud \<Rightarrow> string \<Rightarrow> string list \<Rightarrow> unit aws" where
  "delete_nat_gateways cfg env region nat_ids =
     (if nat_ids = [] then ereturn ()
      else ebind (delete_each cfg env (Delete_nat_gateway region) nat_ids) (\<lambda>_.
           if \<not> cfg_dry_run cfg \<and> nat_ids \<noteq> [] then sleep 60 else ereturn ()))"

definition delete_internet_gateways :: "config \<Rightarrow> cloud \<Rightarrow> string \<Rightarrow> (string \<times> string) list \<Rightarrow> unit aws" where
  "delete_internet_gateways cfg env region igw_data =
     (if igw_data = [] then ereturn ()
      else eforeach (\<lambda>(igw, vpc). if cfg_dry_run cfg then ereturn ()
             else ebind (aws_call env (Detach_internet_gateway region igw vpc)) (\<lambda>detached.
                  if detached then ebind (aws_call env (Delete_internet_gateway region igw)) (\<lambda>_. ereturn ())
                  else ereturn ())) igw_data)"

definition delete_subnets :: "config \<Rightarrow> cloud \<Rightarrow> string \<Rightarrow> string list \<Rightarrow> unit aws" where
  "delete_subnets cfg env region subnet_ids =
     delete_each cfg env (Delete_subnet region) subnet_ids"

definition delete_route_tables :: "config \<Rightarrow> cloud \<Rightarrow> string \<Rightarrow> string list \<Rightarrow> unit aws" where
  "delete_route_tables cfg env region rt_ids =
     delete_each cfg env (Delete_route_table region) rt_ids"

definition delete_security_groups :: "config \<Rightarrow> cloud \<Rightarrow> string \<Rightarrow> string list \<Rightarrow> unit aws" where
  "delete_security_groups cfg env region sg_ids =
     delete_each cfg env (Delete_security_group region) sg_ids"

definition delete_vpcs :: "config \<Rightarrow> cloud \<Rightarrow> string \<Rightarrow> string list \<Rightarrow> unit aws" where
  "delete_vpcs cfg env region vpc_ids =
     delete_each cfg env (Delete_vpc region) vpc_ids"

definition delete_launch_templates :: "config \<Rightarrow> cloud \<Rightarrow> string \<Rightarrow> string list \<Rightarrow> unit aws" where
  "delete_launch_templates cfg env region lt_ids =
     delete_each cfg env (Delete_launch_template region) lt_ids"

definition delete_elasticache_snapshots :: "config \<Rightarrow> cloud \<Rightarrow> string \<Rightarrow> string list \<Rightarrow> unit aws" where
  "delete_elasticache_snapshots cfg env region snapshot_names =
     delete_each cfg env (Delete_snapshot region) snapshot_names"

definition delete_elasticache_parameter_groups :: "config \<Rightarrow> cloud \<Rightarrow> string \<Rightarrow> string list \<Rightarrow> unit aws" where
  "delete_elasticache_parameter_groups cfg env region param_groups =
     delete_each cfg env (Delete_cache_parameter_group region) param_groups"

definition delete_elasticache_subnet_groups :: "config \<Rightarrow> cloud \<Rightarrow> string \<Rightarrow> string list \<Rightarrow> unit aws" where
  "delete_elasticache_subnet_groups cfg env region subnet_groups =
     delete_each cfg env (Delete_cache_subnet_group region) subnet_groups"

definition delete_rds_parameter_groups :: "config \<Rightarrow> cloud \<Rightarrow> string \<Rightarrow> string list \<Rightarrow> unit aws" where
  "delete_rds_parameter_groups cfg env region param_groups =
     delete_each cfg env (Delete_db_cluster_parameter_group region) param_groups"

definition delete_rds_subnet_groups :: "config \<Rightarrow> cloud \<Rightarrow> string \<Rightarrow> string list \<Rightarrow> unit aws" where
  "delete_rds_subnet_groups cfg env region subnet_groups =
     delete_each cfg env (Delete_db_subnet_group region) subnet_groups"

section \<open>Internet gateway attachments\<close>

text \<open>
  \<open>get_igw_vpc_mapping\<close>: one \<open>describe_internet_gateways\<close> request for all ids;
  each described gateway with at least one attachment gives (its id, the \<open>VpcId\<close>
  of its first attachment); a \<open>ClientError\<close> gives the empty list.
\<close>

definition attached_pairs :: "igw_desc list \<Rightarrow> (string \<times> string) list" where
  "attached_pairs igws = [(igw_id g, hd (igw_attachments g)). g \<leftarrow> igws, igw_attachments g \<noteq> []]"

definition get_igw_vpc_mapping :: "cloud \<Rightarrow> string \<Rightarrow> string list \<Rightarrow> (string \<times> string) list aws" where
  "get_igw_vpc_mapping env region igw_ids =
     (if igw_ids = [] then ereturn []
      else (\<lambda>tr. let c = Describe_internet_gateways region igw_ids in
        (case call_outcome env tr c of
           Success \<Rightarrow> (Inr (attached_pairs (igw_descriptions env tr region igw_ids)),
                       tr @ [Call c Success])
         | Client_error \<Rightarrow> (Inr [], tr @ [Call c Client_error])
         | Other_error \<Rightarrow> (Inl BotoError, tr @ [Call c Other_error]))))"

section \<open>The order of the gateway requests\<close>

text \<open>
  A gateway is deleted only right after its detach from the same region succeeded.
\<close>

fun igw_detached :: "api_call \<Rightarrow> (string \<times> string) option" where
  "igw_detached (Detach_internet_gateway r g v) = Some (r, g)"
| "igw_detached _ = None"

fun igw_deleted :: "api_call \<Rightarrow> (string \<times> string) option" where
  "igw_deleted (Delete_internet_gateway r g) = Some (r, g)"
| "igw_deleted _ = None"

fun detach_then_delete :: "event list \<Rightarrow> bool" where
  "detach_then_delete [] = True"
| "detach_then_delete (Sleep n # es) = detach_then_delete es"
| "detach_then_delete [Call c r] = (igw_deleted c = None)"
| "detach_then_delete (Call c r # Sleep n # es) =
     (igw_deleted c = None \<and> detach_then_delete es)"
| "detach_then_delete (Call c r # Call c' r' # es) =
     (igw_deleted c = None \<and>
      (if igw_detached c \<noteq> None \<and> r = Success \<and> igw_deleted c' = igw_detached c
       then detach_then_delete es else detach_then_delete (Call c' r' # es)))"

section \<open>Lemmas\<close>

lemma delete_each_appends:
  assumes call: "\<And>x r. P [Call (mk x) r]" and nil: "P []"
    and app: "\<And>a b. P a \<Longrightarrow> P b \<Longrightarrow> P (a @ b)"
  shows "appends (delete_each cfg env mk xs) P"
proof -
  have step: "appends (if cfg_dry_run cfg then ereturn ()
      else ebind (aws_call env (mk x)) (\<lambda>_. ereturn ())) P" for x
  proof (cases "cfg_dry_run cfg")
    case True
    then show ?thesis by (simp add: appends_ereturn nil)
  next
    case False
    have "appends (ebind (aws_call env (mk x)) (\<lambda>_. ereturn ())) P"
      by (rule appends_ebind[where P = P and Q = P])
        (auto intro: appends_aws_call appends_ereturn call nil app)
    with False show ?thesis by simp
  qed
  show ?thesis
    unfolding delete_each_def
    by (auto intro: appends_ereturn appends_eforeach step nil app)
qed

lemma delete_each_dry:
  "cfg_dry_run cfg \<Longrightarrow> delete_each cfg env mk xs tr = (Inr (), tr)"
proof -
  assume dry: "cfg_dry_run cfg"
  have "eforeach (\<lambda>x. if cfg_dry_run cfg then ereturn ()
          else ebind (aws_call env (mk x)) (\<lambda>_. ereturn ())) ys tr = (Inr (), tr)" for ys
    using dry by (induction ys) (simp_all add: ereturn_apply)
  then show ?thesis by (simp add: delete_each_def ereturn_apply)
qed

lemma delete_each_dry_eq: "cfg_dry_run cfg \<Longrightarrow> delete_each cfg env mk xs = ereturn ()"
  by (rule ext) (simp add: delete_each_dry ereturn_apply)

lemma deleters_dry:
  assumes "cfg_dry_run cfg"
  shows "delete_eks_nodegroups cfg env r ngs = ereturn ()"
    "delete_eks_clusters cfg env r xs = ereturn ()"
    "delete_elasticache_replication_groups cfg env r xs = ereturn ()"
    "delete_elasticache_clusters cfg env r xs = ereturn ()"
    "delete_rds_clusters cfg env r xs = ereturn ()"
    "delete_load_balancers cfg env r xs = ereturn ()"
    "delete_target_groups cfg env r xs = ereturn ()"
    "delete_nat_gateways cfg env r xs = ereturn ()"
    "delete_internet_gateways cfg env r igw_data = ereturn ()"
    "delete_subnets cfg env r xs = ereturn ()"
    "delete_route_tables cfg env r xs = ereturn ()"
    "delete_security_groups cfg env r xs = ereturn ()"
    "delete_vpcs cfg env r xs = ereturn ()"
    "delete_launch_templates cfg env r xs = ereturn ()"
    "delete_elasticache_snapshots cfg env r xs = ereturn ()"
    "delete_elasticache_subnet_groups cfg env r xs = ereturn ()"
    "delete_elasticache_parameter_groups cfg env r xs = ereturn ()"
    "delete_rds_subnet_groups cfg env r xs = ereturn ()"
    "delete_rds_parameter_groups cfg env r xs = ereturn ()"
  using assms
  unfolding delete_eks_nodegroups_def delete_eks_clusters_def delete_elasticache_replication_groups_def
    delete_elasticache_clusters_def delete_rds_clusters_def delete_load_balancers_def
    delete_target_groups_def delete_subnets_def delete_route_tables_def delete_security_groups_def
    delete_vpcs_def delete_launch_templates_def delete_elasticache_snapshots_def
    delete_elasticache_subnet_groups_def delete_elasticache_parameter_groups_def
    delete_rds_subnet_groups_def delete_rds_parameter_groups_def delete_nat_gateways_def
    delete_internet_gateways_def
  by (simp_all add: delete_each_dry_eq eforeach_skip split: prod.splits)

text \<open>
  C2: in live mode, when no request raises anything but a \<open>ClientError\<close>, a
  deleter sends exactly one request per item, in list order, sleeps nothing and
  returns normally: a refused deletion never stops the loop.
\<close>

lemma delete_each_live:
  assumes live: "\<not> cfg_dry_run cfg"
    and no_raise: "\<And>tr' x. x \<in> set xs \<Longrightarrow> call_outcome env tr' (mk x) \<noteq> Other_error"
    and mut: "\<And>x. mutating (mk x)"
  shows "\<exists>new. delete_each cfg env mk xs tr = (Inr (), tr @ new)
           \<and> mutations new = map mk xs \<and> slept new = 0"
proof -
  define F where "F = (\<lambda>x. if cfg_dry_run cfg then ereturn ()
          else ebind (aws_call env (mk x)) (\<lambda>_. ereturn ()))"
  have "\<exists>new. eforeach F ys tr = (Inr (), tr @ new) \<and> mutations new = map mk ys \<and> slept new = 0"
    if "set ys \<subseteq> set xs" for ys tr
    using that
  proof (induction ys arbitrary: tr)
    case Nil
    then show ?case by (simp add: ereturn_apply)
  next
    case (Cons y ys)
    obtain r where r: "call_outcome env tr (mk y) = r" "r \<noteq> Other_error"
      using no_raise Cons.prems by auto
    obtain new where new: "eforeach F ys (tr @ [Call (mk y) r]) = (Inr (), tr @ [Call (mk y) r] @ new)"
        "mutations new = map mk ys" "slept new = 0"
      using Cons.IH[of "tr @ [Call (mk y) r]"] Cons.prems by auto
    have "aws_call env (mk y) tr = (Inr (r = Success), tr @ [Call (mk y) r])"
      using r by (cases r) (simp_all add: aws_call_def)
    then have "F y tr = (Inr (), tr @ [Call (mk y) r])"
      using live by (simp add: F_def ebind_apply ereturn_apply)
    then have "eforeach F (y # ys) tr = eforeach F ys (tr @ [Call (mk y) r])"
      by (simp add: ebind_apply)
    then show ?case using new mut
      by (intro exI[of _ "Call (mk y) r # new"]) simp
  qed
  then show ?thesis
    by (cases "xs = []") (auto simp: delete_each_def F_def [symmetric] ereturn_apply)
qed

lemma detach_then_delete_Call:
  "igw_deleted c = None \<Longrightarrow> detach_then_delete b \<Longrightarrow> detach_then_delete (Call c r # b)"
proof (cases b rule: detach_then_delete.cases)
  case (5 c' r' es)
  moreover assume "igw_deleted c = None" "detach_then_delete b"
  ultimately show ?thesis by auto
qed auto

lemma detach_then_delete_append:
  "detach_then_delete a \<Longrightarrow> detach_then_delete b \<Longrightarrow> detach_then_delete (a @ b)"
  by (induction a rule: detach_then_delete.induct)
    (auto intro: detach_then_delete_Call split: if_splits)

text \<open>
  C3: \<open>delete_internet_gateways\<close> sends \<open>delete_internet_gateway\<close> only
  immediately after a successful \<open>detach_internet_gateway\<close> of the same gateway in
  the same region.
\<close>

lemma delete_internet_gateways_detach_first:
  "appends (delete_internet_gateways cfg env region igw_data) detach_then_delete"
proof -
  have step: "appends (if cfg_dry_run cfg then ereturn ()
             else ebind (aws_call env (Detach_internet_gateway region igw vpc)) (\<lambda>detached.
                  if detached then ebind (aws_call env (Delete_internet_gateway region igw)) (\<lambda>_. ereturn ())
                  else ereturn ())) detach_then_delete" for igw vpc
    by (rule appendsI)
      (auto simp: aws_call_def ebind_apply ereturn_apply split: outcome.splits)
  show ?thesis
    unfolding delete_internet_gateways_def
    by (auto intro!: appends_eforeach appends_ereturn detach_then_delete_append
        simp: step split: prod.splits)
qed

text \<open>
  Witness: against a service that refuses everything, both VPCs of the list are still
  attempted, in order, and the loop returns normally.
\<close>

lemma delete_each_live_witness:
  "\<exists>new. delete_vpcs script_config refusing_cloud ''us-east-1'' [''vpc-a'', ''vpc-b''] [] = (Inr (), new)
     \<and> mutations new = [Delete_vpc ''us-east-1'' ''vpc-a'', Delete_vpc ''us-east-1'' ''vpc-b'']
     \<and> slept new = 0"
  using delete_each_live[of script_config "[''vpc-a'', ''vpc-b'']" refusing_cloud
      "Delete_vpc ''us-east-1''" "[]"]
  by (simp add: delete_vpcs_def script_config_def DRY_RUN_def refusing_cloud_def)

end
