(* ===== verification/Tag_Discovery.thy ===== *)
theory Tag_Discovery
  imports Cloud_Api
begin

text \<open>
  \<open>get_tagged_resources\<close> of \<open>src/scripts/cleanup.py\<close>: for each value of
  \<open>TAG_VALUES\<close>, in order, page through \<open>get_resources\<close> filtered on
  \<open>TAG_KEY = value\<close> and extend the result with every page. A \<open>ClientError\<close>
  ends that value's pagination but keeps the pages already read and goes on with the
  next value; any other exception propagates. One \<open>Get_resources\<close> event stands for
  the whole pagination of one value.
\<close>

primrec scan_tag_values :: "cloud \<Rightarrow> string \<Rightarrow> string \<Rightarrow> string list
    \<Rightarrow> tagged_resource list \<Rightarrow> tagged_resource list aws" where
  "scan_tag_values env region key [] resources = ereturn resources"
| "scan_tag_values env region key (v # vs) resources = (\<lambda>tr.
     (case tag_pages env tr region key v of
        (pages, Other_error) \<Rightarrow> (Inl BotoError, tr @ [Call (Get_resources region key v) Other_error])
      | (pages, r) \<Rightarrow> scan_tag_values env region key vs (resources @ concat pages)
                       (tr @ [Call (Get_resources region key v) r])))"

definition get_tagged_resources :: "config \<Rightarrow> cloud \<Rightarrow> string \<Rightarrow> tagged_resource list aws" where
  "get_tagged_resources cfg env region =
     scan_tag_values env region (cfg_tag_key cfg) (cfg_tag_values cfg) []"

text \<open>The scan only reads: it appends one \<open>Get_resources\<close> event per value reached.\<close>

definition only_reads :: "event list \<Rightarrow> bool" where
  "only_reads evs \<longleftrightarrow> mutations evs = [] \<and> slept evs = 0"

section \<open>Lemmas\<close>

lemma only_reads_Nil [simp]: "only_reads []"
  by (simp add: only_reads_def)

lemma only_reads_append [simp]: "only_reads (a @ b) \<longleftrightarrow> only_reads a \<and> only_reads b"
  by (auto simp: only_reads_def)

lemma only_reads_Get [simp]: "only_reads (Call (Get_resources r k v) x # evs) \<longleftrightarrow> only_reads evs"
  by (simp add: only_reads_def)

lemma scan_tag_values_reads:
  "appends (scan_tag_values env region key vs acc) (\<lambda>evs. only_reads evs \<and> in_region region evs)"
proof (induction vs arbitrary: acc)
  case Nil
  then show ?case by (simp add: appends_ereturn)
next
  case (Cons v vs)
  show ?case
  proof (rule appendsI)
    fix tr
    obtain pages r where tp: "tag_pages env tr region key v = (pages, r)" by fastforce
    show "\<exists>new. snd (scan_tag_values env region key (v # vs) acc tr) = tr @ new \<and> only_reads new \<and> in_region region new"
    proof (cases r)
      case Other_error
      then show ?thesis using tp by auto
    next
      case Success
      obtain new where "snd (scan_tag_values env region key vs (acc @ concat pages)
          (tr @ [Call (Get_resources region key v) r])) = (tr @ [Call (Get_resources region key v) r]) @ new"
          "only_reads new" "in_region region new"
        using appendsD[OF Cons.IH] by blast
      then show ?thesis using tp Success by (intro exI[of _ "Call (Get_resources region key v) r # new"]) auto
    next
      case Client_error
      obtain new where "snd (scan_tag_values env region key vs (acc @ concat pages)
          (tr @ [Call (Get_resources region key v) r])) = (tr @ [Call (Get_resources region key v) r]) @ new"
          "only_reads new" "in_region region new"
        using appendsD[OF Cons.IH] by blast
      then show ?thesis using tp Client_error by (intro exI[of _ "Call (Get_resources region key v) r # new"]) auto
    qed
  qed
qed

lemma get_tagged_resources_reads:
  "appends (get_tagged_resources cfg env region) (\<lambda>evs. only_reads evs \<and> in_region region evs)"
  by (simp add: get_tagged_resources_def scan_tag_values_reads)

text \<open>
  C8: against a listing that does not change during the scan and raises nothing but
  \<open>ClientError\<close>, the scan returns every page of every tag value, in the order of
  the tag values and pages.
\<close>

lemma scan_tag_values_result:
  assumes fixed: "\<And>tr. tag_pages env tr = listing"
    and no_raise: "\<And>v. v \<in> set vs \<Longrightarrow> snd (listing region key v) \<noteq> Other_error"
  shows "fst (scan_tag_values env region key vs acc tr) =
           Inr (acc @ concat (map (\<lambda>v. concat (fst (listing region key v))) vs))"
  using no_raise
proof (induction vs arbitrary: acc tr)
  case Nil
  then show ?case by (simp add: ereturn_apply)
next
  case (Cons v vs)
  obtain pages r where l: "listing region key v = (pages, r)" by fastforce
  with Cons.prems have "r \<noteq> Other_error" by fastforce
  with l fixed Cons show ?case by (cases r) auto
qed

lemma scan_tag_values_result_witness:
  "fst (get_tagged_resources script_config
          (accepting_cloud (\<lambda>r k v. ([[\<lparr>resource_arn = ''arn:'' @ v\<rparr>]], Success))) ''us-east-1'' [])
   = Inr [\<lparr>resource_arn = ''arn:terraform''\<rparr>, \<lparr>resource_arn = ''arn:Terraform''\<rparr>]"
  using scan_tag_values_result[of "accepting_cloud (\<lambda>r k v. ([[\<lparr>resource_arn = ''arn:'' @ v\<rparr>]], Success))"
      "\<lambda>r k v. ([[\<lparr>resource_arn = ''arn:'' @ v\<rparr>]], Success)" TAG_VALUES "''us-east-1''" TAG_KEY "[]" "[]"]
  by (simp add: get_tagged_resources_def script_config_def accepting_cloud_def TAG_VALUES_def)

end
