(* ===== verification/Dependencies.thy ===== *)
theory Dependencies
  imports Cloud_Api
begin

text \<open>
  The abstract contract of the teardown: which AWS resources must be gone before
  another can be deleted. The spec (section 1) promises deletion "in an order that
  respects known dependency chains (compute before networking before addressing)";
  the code states no list of dependencies, so this theory writes the known ones down
  as a relation on resource kinds, from the service's documented deletion
  constraints: node groups block their cluster; clusters, caches, databases, load
  balancers and NAT gateways hold network interfaces in subnets and security groups;
  a load balancer in use blocks its target groups; public addresses of load
  balancers and NAT gateways block detaching the internet gateway; caches and
  databases block their subnet and parameter groups; every subnet, non-main route
  table, security group and attached gateway blocks the VPC. A list of requests
  \<open>respects_dependencies\<close> when no request is followed by one for a resource
  that had to be deleted before it.
\<close>

datatype res_kind =
    K_nodegroup | K_eks_cluster | K_repl_group | K_cache_cluster | K_db_cluster
  | K_load_balancer | K_target_group | K_nat_gateway | K_internet_gateway | K_subnet
  | K_route_table | K_security_group | K_vpc | K_launch_template | K_cache_snapshot
  | K_cache_subnet_group | K_cache_param_group | K_db_subnet_group | K_db_param_group

fun kind_of :: "api_call \<Rightarrow> res_kind option" where
  "kind_of (Get_resources _ _ _) = None"
| "kind_of (Describe_internet_gateways _ _) = None"
| "kind_of (Delete_nodegroup _ _ _) = Some K_nodegroup"
| "kind_of (Delete_cluster _ _) = Some K_eks_cluster"
| "kind_of (Delete_replication_group _ _) = Some K_repl_group"
| "kind_of (Delete_cache_cluster _ _) = Some K_cache_cluster"
| "kind_of (Delete_db_cluster _ _) = Some K_db_cluster"
| "kind_of (Delete_load_balancer _ _) = Some K_load_balancer"
| "kind_of (Delete_target_group _ _) = Some K_target_group"
| "kind_of (Delete_nat_gateway _ _) = Some K_nat_gateway"
| "kind_of (Detach_internet_gateway _ _ _) = Some K_internet_gateway"
| "kind_of (Delete_internet_gateway _ _) = Some K_internet_gateway"
| "kind_of (Delete_subnet _ _) = Some K_subnet"
| "kind_of (Delete_route_table _ _) = Some K_route_table"
| "kind_of (Delete_security_group _ _) = Some K_security_group"
| "kind_of (Delete_vpc _ _) = Some K_vpc"
| "kind_of (Delete_launch_template _ _) = Some K_launch_template"
| "kind_of (Delete_snapshot _ _) = Some K_cache_snapshot"
| "kind_of (Delete_cache_subnet_group _ _) = Some K_cache_subnet_group"
| "kind_of (Delete_cache_parameter_group _ _) = Some K_cache_param_group"
| "kind_of (Delete_db_subnet_group _ _) = Some K_db_subnet_group"
| "kind_of (Delete_db_cluster_parameter_group _ _) = Some K_db_param_group"

definition dependency_edges :: "(res_kind \<times> res_kind) list" where
  "dependency_edges =
    [(K_nodegroup, K_eks_cluster), (K_nodegroup, K_subnet), (K_nodegroup, K_security_group),
     (K_eks_cluster, K_subnet), (K_eks_cluster, K_security_group), (K_eks_cluster, K_vpc),
     (K_repl_group, K_cache_subnet_group), (K_repl_group, K_cache_param_group),
     (K_cache_cluster, K_cache_subnet_group), (K_cache_cluster, K_cache_param_group),
     (K_repl_group, K_subnet), (K_repl_group, K_security_group),
     (K_cache_cluster, K_subnet), (K_cache_cluster, K_security_group),
     (K_db_cluster, K_db_subnet_group), (K_db_cluster, K_db_param_group),
     (K_db_cluster, K_subnet), (K_db_cluster, K_security_group),
     (K_load_balancer, K_target_group), (K_load_balancer, K_subnet),
     (K_load_balancer, K_security_group), (K_load_balancer, K_internet_gateway),
     (K_nat_gateway, K_subnet), (K_nat_gateway, K_internet_gateway),
     (K_internet_gateway, K_vpc), (K_subnet, K_vpc), (K_route_table, K_vpc),
     (K_security_group, K_vpc)]"

definition must_precede :: "api_call \<Rightarrow> api_call \<Rightarrow> bool" where
  "must_precede a b =
     (case (kind_of a, kind_of b) of
        (Some ka, Some kb) \<Rightarrow> (ka, kb) \<in> set dependency_edges
      | _ \<Rightarrow> False)"

fun respects_dependencies :: "api_call list \<Rightarrow> bool" where
  "respects_dependencies [] = True"
| "respects_dependencies (c # cs) =
     (list_all (\<lambda>d. \<not> must_precede d c) cs \<and> respects_dependencies cs)"

end
