(* ===== verification/Region_Cleanup.thy ===== *)
theory Region_Cleanup
  imports Arn_Classify Deleters Tag_Discovery Dependencies "HOL-Library.Multiset"
begin

text \<open>
  \<open>process_region\<close> of \<open>src/scripts/cleanup.py\<close>: scan the region's tagged
  resources, return if there are none, sort them into nineteen buckets with the
  classifier of \<open>Arn_Classify\<close> (\<open>categorize\<close>), look up the internet gateways'
  attachments, then call the deleters in seven phases with fixed sleeps between them.
  The buckets are the record \<open>buckets\<close>, one field per list variable of the source,
  in the source's order. An exception anywhere (an \<open>IndexError\<close> of the classifier,
  a non-\<open>ClientError\<close> of the client) leaves the function with the trace so far.

  The lemmas show that categorisation loses and invents nothing (a multiset
  refinement), and that the deletion requests of a region are issued in phase order,
  so that no resource is deleted before one that depends on it.
\<close>

section \<open>Buckets\<close>

record buckets =
  eks_clusters :: "string list"
  eks_nodegroups :: "(string \<times> string) list"
  elasticache_clusters :: "string list"
  elasticache_repl_groups :: "string list"
  elasticache_snapshots :: "string list"
  elasticache_param_groups :: "string list"
  elasticache_subnet_groups :: "string list"
  rds_clusters :: "string list"
  rds_param_groups :: "string list"
  rds_subnet_groups :: "string list"
  load_balancers :: "string list"
  target_groups :: "string list"
  nat_gateways :: "string list"
  internet_gateways :: "string list"
  subnets :: "string list"
  route_tables :: "string list"
  security_groups :: "string list"
  vpcs :: "string list"
  launch_templates :: "string list"

definition empty_buckets :: buckets where
  "empty_buckets = \<lparr>eks_clusters = [], eks_nodegroups = [], elasticache_clusters = [],
     elasticache_repl_groups = [], elasticache_snapshots = [], elasticache_param_groups = [],
     elasticache_subnet_groups = [], rds_clusters = [], rds_param_groups = [],
     rds_subnet_groups = [], load_balancers = [], target_groups = [], nat_gateways = [],
     internet_gateways = [], subnets = [], route_tables = [], security_groups = [],
     vpcs = [], launch_templates = []\<rparr>"

text \<open>The \<open>append\<close> of the branch the classifier took.\<close>

fun add_category :: "buckets \<Rightarrow> category \<Rightarrow> buckets" where
  "add_category b (Eks_cluster n) = b\<lparr>eks_clusters := eks_clusters b @ [n]\<rparr>"
| "add_category b (Eks_nodegroup c n) = b\<lparr>eks_nodegroups := eks_nodegroups b @ [(c, n)]\<rparr>"
| "add_category b (Cache_cluster i) = b\<lparr>elasticache_clusters := elasticache_clusters b @ [i]\<rparr>"
| "add_category b (Cache_repl_group i) = b\<lparr>elasticache_repl_groups := elasticache_repl_groups b @ [i]\<rparr>"
| "add_category b (Cache_snapshot i) = b\<lparr>elasticache_snapshots := elasticache_snapshots b @ [i]\<rparr>"
| "add_category b (Cache_param_group i) = b\<lparr>elasticache_param_groups := elasticache_param_groups b @ [i]\<rparr>"
| "add_category b (Cache_subnet_group i) = b\<lparr>elasticache_subnet_groups := elasticache_subnet_groups b @ [i]\<rparr>"
| "add_category b (Rds_cluster i) = b\<lparr>rds_clusters := rds_clusters b @ [i]\<rparr>"
| "add_category b (Rds_param_group i) = b\<lparr>rds_param_groups := rds_param_groups b @ [i]\<rparr>"
| "add_category b (Rds_subnet_group i) = b\<lparr>rds_subnet_groups := rds_subnet_groups b @ [i]\<rparr>"
| "add_category b (Load_balancer a) = b\<lparr>load_balancers := load_balancers b @ [a]\<rparr>"
| "add_category b (Target_group a) = b\<lparr>target_groups := target_groups b @ [a]\<rparr>"
| "add_category b (Nat_gateway i) = b\<lparr>nat_gateways := nat_gateways b @ [i]\<rparr>"
| "add_category b (Internet_gateway i) = b\<lparr>internet_gateways := internet_gateways b @ [i]\<rparr>"
| "add_category b (Subnet i) = b\<lparr>subnets := subnets b @ [i]\<rparr>"
| "add_category b (Route_table i) = b\<lparr>route_tables := route_tables b @ [i]\<rparr>"
| "add_category b (Security_group i) = b\<lparr>security_groups := security_groups b @ [i]\<rparr>"
| "add_category b (Vpc i) = b\<lparr>vpcs := vpcs b @ [i]\<rparr>"
| "add_category b (Launch_template i) = b\<lparr>launch_templates := launch_templates b @ [i]\<rparr>"
| "add_category b Default_security_group = b"
| "add_category b Unmatched = b"

text \<open>The loop \<open>for resource in resources\<close>; an \<open>IndexError\<close> ends it.\<close>

fun categorize :: "buckets \<Rightarrow> tagged_resource list \<Rightarrow> py_exc + buckets" where
  "categorize b [] = Inr b"
| "categorize b (r # rs) =
     (case classify_arn (resource_arn r) of
        Inl e \<Rightarrow> Inl e
      | Inr c \<Rightarrow> categorize (add_category b c) rs)"

section \<open>The region\<close>

definition process_region :: "config \<Rightarrow> cloud \<Rightarrow> string \<Rightarrow> unit aws" where
  "process_region cfg env region =
   ebind (get_tagged_resources cfg env region) (\<lambda>resources.
   if resources = [] then ereturn ()
   else
   ebind (elift (categorize empty_buckets resources)) (\<lambda>b.
   ebind (get_igw_vpc_mapping env region (internet_gateways b)) (\<lambda>igw_data.
   ebind (delete_eks_nodegroups cfg env region (eks_nodegroups b)) (\<lambda>_.
   ebind (if eks_nodegroups b \<noteq> [] \<and> \<not> cfg_dry_run cfg then sleep 120 else ereturn ()) (\<lambda>_.
   ebind (delete_eks_clusters cfg env region (eks_clusters b)) (\<lambda>_.
   ebind (if eks_clusters b \<noteq> [] \<and> \<not> cfg_dry_run cfg then sleep 120 else ereturn ()) (\<lambda>_.
   ebind (delete_elasticache_replication_groups cfg env region (elasticache_repl_groups b)) (\<lambda>_.
   ebind (delete_elasticache_clusters cfg env region (elasticache_clusters b)) (\<lambda>_.
   ebind (delete_rds_clusters cfg env region (rds_clusters b)) (\<lambda>_.
   ebind (if (elasticache_clusters b \<noteq> [] \<or> elasticache_repl_groups b \<noteq> [] \<or> rds_clusters b \<noteq> [])
             \<and> \<not> cfg_dry_run cfg then sleep 60 else ereturn ()) (\<lambda>_.
   ebind (delete_load_balancers cfg env region (load_balancers b)) (\<lambda>_.
   ebind (if load_balancers b \<noteq> [] \<and> \<not> cfg_dry_run cfg then sleep 30 else ereturn ()) (\<lambda>_.
   ebind (delete_target_groups cfg env region (target_groups b)) (\<lambda>_.
   ebind (delete_nat_gateways cfg env region (nat_gateways b)) (\<lambda>_.
   ebind (delete_internet_gateways cfg env region igw_data) (\<lambda>_.
   ebind (delete_subnets cfg env region (subnets b)) (\<lambda>_.
   ebind (delete_route_tables cfg env region (route_tables b)) (\<lambda>_.
   ebind (delete_security_groups cfg env region (security_groups b)) (\<lambda>_.
   ebind (delete_vpcs cfg env region (vpcs b)) (\<lambda>_.
   ebind (delete_launch_templates cfg env region (launch_templates b)) (\<lambda>_.
   ebind (delete_elasticache_snapshots cfg env region (elasticache_snapshots b)) (\<lambda>_.
   ebind (delete_elasticache_subnet_groups cfg env region (elasticache_subnet_groups b)) (\<lambda>_.
   ebind (delete_elasticache_parameter_groups cfg env region (elasticache_param_groups b)) (\<lambda>_.
   ebind (delete_rds_subnet_groups cfg env region (rds_subnet_groups b)) (\<lambda>_.
   delete_rds_parameter_groups cfg env region (rds_param_groups b))))))))))))))))))))))))))"

section \<open>Phases\<close>

text \<open>
  The rank of a request is its position in the phase order of \<open>process_region\<close>;
  reads have rank 0. \<open>ranked lo hi evs\<close>: the ranks of the deletions in \<open>evs\<close>
  never decrease and lie between \<open>lo\<close> and \<open>hi\<close>.
\<close>

fun call_rank :: "api_call \<Rightarrow> nat" where
  "call_rank (Get_resources _ _ _) = 0"
| "call_rank (Describe_internet_gateways _ _) = 0"
| "call_rank (Delete_nodegroup _ _ _) = 1"
| "call_rank (Delete_cluster _ _) = 2"
| "call_rank (Delete_replication_group _ _) = 3"
| "call_rank (Delete_cache_cluster _ _) = 4"
| "call_rank (Delete_db_cluster _ _) = 5"
| "call_rank (Delete_load_balancer _ _) = 6"
| "call_rank (Delete_target_group _ _) = 7"
| "call_rank (Delete_nat_gateway _ _) = 8"
| "call_rank (Detach_internet_gateway _ _ _) = 9"
| "call_rank (Delete_internet_gateway _ _) = 9"
| "call_rank (Delete_subnet _ _) = 10"
| "call_rank (Delete_route_table _ _) = 11"
| "call_rank (Delete_security_group _ _) = 12"
| "call_rank (Delete_vpc _ _) = 13"
| "call_rank (Delete_launch_template _ _) = 14"
| "call_rank (Delete_snapshot _ _) = 15"
| "call_rank (Delete_cache_subnet_group _ _) = 16"
| "call_rank (Delete_cache_parameter_group _ _) = 17"
| "call_rank (Delete_db_subnet_group _ _) = 18"
| "call_rank (Delete_db_cluster_parameter_group _ _) = 19"

definition ranked :: "nat \<Rightarrow> nat \<Rightarrow> event list \<Rightarrow> bool" where
  "ranked lo hi evs \<longleftrightarrow> sorted (map call_rank (mutations evs))
     \<and> (\<forall>c \<in> set (mutations evs). lo \<le> call_rank c \<and> call_rank c \<le> hi)"

fun kind_rank :: "res_kind \<Rightarrow> nat" where
  "kind_rank K_nodegroup = 1" | "kind_rank K_eks_cluster = 2" | "kind_rank K_repl_group = 3"
| "kind_rank K_cache_cluster = 4" | "kind_rank K_db_cluster = 5" | "kind_rank K_load_balancer = 6"
| "kind_rank K_target_group = 7" | "kind_rank K_nat_gateway = 8" | "kind_rank K_internet_gateway = 9"
| "kind_rank K_subnet = 10" | "kind_rank K_route_table = 11" | "kind_rank K_security_group = 12"
| "kind_rank K_vpc = 13" | "kind_rank K_launch_template = 14" | "kind_rank K_cache_snapshot = 15"
| "kind_rank K_cache_subnet_group = 16" | "kind_rank K_cache_param_group = 17"
| "kind_rank K_db_subnet_group = 18" | "kind_rank K_db_param_group = 19"

section \<open>Lemmas: phase order\<close>

lemma ranked_Nil [simp]: "ranked lo hi []"
  by (simp add: ranked_def)

lemma ranked_append:
  "ranked a b x \<Longrightarrow> ranked b c y \<Longrightarrow> a \<le> b \<Longrightarrow> b \<le> c \<Longrightarrow> ranked a c (x @ y)"
proof -
  assume x: "ranked a b x" and y: "ranked b c y" and "a \<le> b" "b \<le> c"
  have "\<forall>u \<in> set (mutations x). \<forall>v \<in> set (mutations y). call_rank u \<le> call_rank v"
    using x y unfolding ranked_def by (meson order_trans)
  with x y \<open>a \<le> b\<close> \<open>b \<le> c\<close> show ?thesis
    unfolding ranked_def by (auto simp: sorted_append intro: order_trans)
qed

lemma ranked_mono: "ranked k k x \<Longrightarrow> a \<le> k \<Longrightarrow> k \<le> c \<Longrightarrow> ranked a c x"
  by (auto simp: ranked_def)

lemma ranked_same_append: "ranked k k x \<Longrightarrow> ranked k k y \<Longrightarrow> ranked k k (x @ y)"
  by (rule ranked_append) auto

lemma ranked_reads: "mutations evs = [] \<Longrightarrow> ranked a c evs"
  by (simp add: ranked_def)

text \<open>Chaining rules.\<close>

lemma appends_ebind_reads:
  assumes "appends m (\<lambda>evs. mutations evs = [])" "\<And>x. appends (f x) (ranked a c)"
  shows "appends (ebind m f) (ranked a c)"
  by (rule appends_ebind[OF assms]) (auto intro: ranked_reads simp: ranked_def)

lemma appends_ebind_ranked:
  assumes "appends m (ranked k k)" "\<And>x. appends (f x) (ranked k c)" "a \<le> k" "k \<le> c"
  shows "appends (ebind m f) (ranked a c)"
  by (rule appends_ebind[OF assms(1,2)])
    (auto intro: ranked_append[OF ranked_mono] ranked_mono assms(3,4))

lemma appends_ranked_mono:
  "appends m (ranked k k) \<Longrightarrow> a \<le> k \<Longrightarrow> k \<le> c \<Longrightarrow> appends m (ranked a c)"
  by (auto intro: appends_mono ranked_mono)

lemma appends_if: "appends m1 P \<Longrightarrow> appends m2 P \<Longrightarrow> appends (if b then m1 else m2) P"
  by simp

lemma reads_get_tagged: "appends (get_tagged_resources cfg env region) (\<lambda>evs. mutations evs = [])"
  by (rule appends_mono[OF get_tagged_resources_reads]) (simp add: only_reads_def)

lemma get_tagged_in_region: "appends (get_tagged_resources cfg env region) (in_region region)"
  by (rule appends_mono[OF get_tagged_resources_reads]) simp

lemma reads_igw_mapping: "appends (get_igw_vpc_mapping env region ids) (\<lambda>evs. mutations evs = [])"
  by (auto simp: appends_def get_igw_vpc_mapping_def ereturn_apply Let_def split: outcome.splits)

lemma reads_elift: "appends (elift r) (\<lambda>evs. mutations evs = [])"
  by (simp add: appends_elift)

lemma reads_sleep_if: "appends (if b then sleep n else ereturn ()) (\<lambda>evs. mutations evs = [])"
  by (simp add: appends_sleep appends_ereturn)

lemma delete_each_ranked:
  "(\<And>x. call_rank (mk x) = k) \<Longrightarrow> (\<And>x. mutating (mk x)) \<Longrightarrow> appends (delete_each cfg env mk xs) (ranked k k)"
  by (intro delete_each_appends ranked_same_append) (auto simp: ranked_def)

lemma deleters_ranked:
  "appends (delete_eks_nodegroups cfg env r ngs) (ranked 1 1)"
  "appends (delete_eks_clusters cfg env r xs) (ranked 2 2)"
  "appends (delete_elasticache_replication_groups cfg env r xs) (ranked 3 3)"
  "appends (delete_elasticache_clusters cfg env r xs) (ranked 4 4)"
  "appends (delete_rds_clusters cfg env r xs) (ranked 5 5)"
  "appends (delete_load_balancers cfg env r xs) (ranked 6 6)"
  "appends (delete_target_groups cfg env r xs) (ranked 7 7)"
  "appends (delete_subnets cfg env r xs) (ranked 10 10)"
  "appends (delete_route_tables cfg env r xs) (ranked 11 11)"
  "appends (delete_security_groups cfg env r xs) (ranked 12 12)"
  "appends (delete_vpcs cfg env r xs) (ranked 13 13)"
  "appends (delete_launch_templates cfg env r xs) (ranked 14 14)"
  "appends (delete_elasticache_snapshots cfg env r xs) (ranked 15 15)"
  "appends (delete_elasticache_subnet_groups cfg env r xs) (ranked 16 16)"
  "appends (delete_elasticache_parameter_groups cfg env r xs) (ranked 17 17)"
  "appends (delete_rds_subnet_groups cfg env r xs) (ranked 18 18)"
  "appends (delete_rds_parameter_groups cfg env r xs) (ranked 19 19)"
  unfolding delete_eks_nodegroups_def delete_eks_clusters_def delete_elasticache_replication_groups_def
    delete_elasticache_clusters_def delete_rds_clusters_def delete_load_balancers_def
    delete_target_groups_def delete_subnets_def delete_route_tables_def delete_security_groups_def
    delete_vpcs_def delete_launch_templates_def delete_elasticache_snapshots_def
    delete_elasticache_subnet_groups_def delete_elasticache_parameter_groups_def
    delete_rds_subnet_groups_def delete_rds_parameter_groups_def
  by (rule delete_each_ranked; auto)+

lemma delete_nat_gateways_ranked: "appends (delete_nat_gateways cfg env r xs) (ranked 8 8)"
  unfolding delete_nat_gateways_def
  by (intro appends_if appends_ereturn appends_ebind[where P = "ranked 8 8" and Q = "ranked 8 8"]
        delete_each_ranked appends_sleep ranked_same_append)
    (auto simp: ranked_def)

lemma delete_internet_gateways_ranked:
  "appends (delete_internet_gateways cfg env r igw_data) (ranked 9 9)"
proof -
  have step: "appends (if cfg_dry_run cfg then ereturn ()
             else ebind (aws_call env (Detach_internet_gateway r igw vpc)) (\<lambda>detached.
                  if detached then ebind (aws_call env (Delete_internet_gateway r igw)) (\<lambda>_. ereturn ())
                  else ereturn ())) (ranked 9 9)" for igw vpc
    by (rule appendsI)
      (auto simp: aws_call_def ebind_apply ereturn_apply ranked_def split: outcome.splits)
  show ?thesis
    unfolding delete_internet_gateways_def
    by (auto intro!: appends_eforeach appends_ereturn ranked_same_append
        simp: step split: prod.splits)
qed

theorem process_region_phase_order:
  "appends (process_region cfg env region) (ranked 0 19)"
  unfolding process_region_def
  by (intro appends_ebind_reads[OF reads_get_tagged] appends_if appends_ereturn ranked_Nil
      appends_ebind_reads[OF reads_elift] appends_ebind_reads[OF reads_igw_mapping]
      appends_ebind_reads[OF reads_sleep_if]
      appends_ebind_ranked[OF deleters_ranked(1)] appends_ebind_ranked[OF deleters_ranked(2)]
      appends_ebind_ranked[OF deleters_ranked(3)] appends_ebind_ranked[OF deleters_ranked(4)]
      appends_ebind_ranked[OF deleters_ranked(5)] appends_ebind_ranked[OF deleters_ranked(6)]
      appends_ebind_ranked[OF deleters_ranked(7)] appends_ebind_ranked[OF delete_nat_gateways_ranked]
      appends_ebind_ranked[OF delete_internet_gateways_ranked]
      appends_ebind_ranked[OF deleters_ranked(8)] appends_ebind_ranked[OF deleters_ranked(9)]
      appends_ebind_ranked[OF deleters_ranked(10)] appends_ebind_ranked[OF deleters_ranked(11)]
      appends_ebind_ranked[OF deleters_ranked(12)] appends_ebind_ranked[OF deleters_ranked(13)]
      appends_ebind_ranked[OF deleters_ranked(14)] appends_ebind_ranked[OF deleters_ranked(15)]
      appends_ebind_ranked[OF deleters_ranked(16)]
      appends_ranked_mono[OF deleters_ranked(17)]) simp_all


lemma call_rank_kind: "kind_of c = Some k \<Longrightarrow> call_rank c = kind_rank k"
  by (cases c) auto

lemma dependency_edges_rank: "(a, b) \<in> set dependency_edges \<Longrightarrow> kind_rank a < kind_rank b"
  by (auto simp: dependency_edges_def)

lemma must_precede_rank: "must_precede a b \<Longrightarrow> call_rank a < call_rank b"
  by (auto simp: must_precede_def call_rank_kind dependency_edges_rank split: option.splits)

lemma sorted_respects_dependencies:
  "sorted (map call_rank cs) \<Longrightarrow> respects_dependencies cs"
proof (induction cs)
  case (Cons a cs)
  then have "\<forall>d \<in> set cs. call_rank a \<le> call_rank d" "respects_dependencies cs" by auto
  then show ?case by (auto simp: list_all_iff dest!: must_precede_rank)
qed simp

text \<open>
  C1: whatever the service answers, the deletion requests \<open>process_region\<close>
  issues never delete a resource before one that depends on it: no request is
  followed by a request for a resource kind that had to be deleted before it.
\<close>

theorem process_region_respects_dependencies:
  "appends (process_region cfg env region) (\<lambda>new. respects_dependencies (mutations new))"
  by (rule appends_mono[OF process_region_phase_order])
    (simp add: ranked_def sorted_respects_dependencies)

section \<open>Lemmas: every request of a region goes to that region\<close>

lemma deleters_in_region:
  "appends (delete_eks_nodegroups cfg env r ngs) (in_region r)"
  "appends (delete_eks_clusters cfg env r xs) (in_region r)"
  "appends (delete_elasticache_replication_groups cfg env r xs) (in_region r)"
  "appends (delete_elasticache_clusters cfg env r xs) (in_region r)"
  "appends (delete_rds_clusters cfg env r xs) (in_region r)"
  "appends (delete_load_balancers cfg env r xs) (in_region r)"
  "appends (delete_target_groups cfg env r xs) (in_region r)"
  "appends (delete_subnets cfg env r xs) (in_region r)"
  "appends (delete_route_tables cfg env r xs) (in_region r)"
  "appends (delete_security_groups cfg env r xs) (in_region r)"
  "appends (delete_vpcs cfg env r xs) (in_region r)"
  "appends (delete_launch_templates cfg env r xs) (in_region r)"
  "appends (delete_elasticache_snapshots cfg env r xs) (in_region r)"
  "appends (delete_elasticache_subnet_groups cfg env r xs) (in_region r)"
  "appends (delete_elasticache_parameter_groups cfg env r xs) (in_region r)"
  "appends (delete_rds_subnet_groups cfg env r xs) (in_region r)"
  "appends (delete_rds_parameter_groups cfg env r xs) (in_region r)"
  "appends (delete_nat_gateways cfg env r xs) (in_region r)"
  unfolding delete_eks_nodegroups_def delete_eks_clusters_def delete_elasticache_replication_groups_def
    delete_elasticache_clusters_def delete_rds_clusters_def delete_load_balancers_def
    delete_target_groups_def delete_subnets_def delete_route_tables_def delete_security_groups_def
    delete_vpcs_def delete_launch_templates_def delete_elasticache_snapshots_def
    delete_elasticache_subnet_groups_def delete_elasticache_parameter_groups_def
    delete_rds_subnet_groups_def delete_rds_parameter_groups_def delete_nat_gateways_def
  by (intro appends_if appends_ereturn appends_ebind_same delete_each_appends appends_sleep;
      simp split: prod.splits)+

lemma delete_internet_gateways_in_region:
  "appends (delete_internet_gateways cfg env r igw_data) (in_region r)"
proof -
  have step: "appends (if cfg_dry_run cfg then ereturn ()
             else ebind (aws_call env (Detach_internet_gateway r igw vpc)) (\<lambda>detached.
                  if detached then ebind (aws_call env (Delete_internet_gateway r igw)) (\<lambda>_. ereturn ())
                  else ereturn ())) (in_region r)" for igw vpc
    by (rule appendsI)
      (auto simp: aws_call_def ebind_apply ereturn_apply split: outcome.splits)
  show ?thesis
    unfolding delete_internet_gateways_def
    by (auto intro!: appends_eforeach appends_ereturn simp: step split: prod.splits)
qed

lemma get_igw_vpc_mapping_in_region: "appends (get_igw_vpc_mapping env r ids) (in_region r)"
  by (auto simp: appends_def get_igw_vpc_mapping_def ereturn_apply Let_def split: outcome.splits)

text \<open>\<open>process_region\<close> is the scan followed by a continuation that stays in the region.\<close>

lemma process_region_scan_then:
  "\<exists>f. process_region cfg env region = ebind (get_tagged_resources cfg env region) f
     \<and> (\<forall>x. appends (f x) (in_region region))"
  unfolding process_region_def
  apply (rule exI, rule conjI[OF refl], rule allI)
  apply (intro appends_ebind_same appends_if appends_ereturn appends_elift appends_sleep
      get_igw_vpc_mapping_in_region delete_internet_gateways_in_region deleters_in_region)
  apply simp_all
  done

lemma process_region_in_region:
  "appends (process_region cfg env region) (in_region region)"
proof -
  obtain f where pr: "process_region cfg env region = ebind (get_tagged_resources cfg env region) f"
      and f: "\<And>x. appends (f x) (in_region region)"
    using process_region_scan_then by blast
  show ?thesis unfolding pr
    by (rule appends_ebind_same[OF get_tagged_in_region f]) simp
qed

lemma scan_first_event:
  "\<exists>x rest. snd (scan_tag_values env region key (v # vs) acc tr)
      = tr @ Call (Get_resources region key v) x # rest"
proof -
  obtain pages r where tp: "tag_pages env tr region key v = (pages, r)" by fastforce
  obtain new where "snd (scan_tag_values env region key vs (acc @ concat pages)
      (tr @ [Call (Get_resources region key v) r])) = (tr @ [Call (Get_resources region key v) r]) @ new"
    using appendsD[OF scan_tag_values_reads] by blast
  then show ?thesis using tp by (cases r) auto
qed

lemma snd_ebind_extends:
  assumes "\<And>x. appends (f x) P"
  shows "\<exists>new. snd (ebind m f tr) = snd (m tr) @ new"
proof (cases "m tr")
  case (Pair r tr')
  then show ?thesis
  proof (cases r)
    case (Inr x)
    then show ?thesis using Pair appendsD[OF assms, of x tr'] by (auto simp: ebind_def)
  qed (simp add: ebind_def)
qed

lemma process_region_scans_first:
  assumes "cfg_tag_values cfg \<noteq> []"
  shows "\<exists>x rest. snd (process_region cfg env region tr)
           = tr @ Call (Get_resources region (cfg_tag_key cfg) (hd (cfg_tag_values cfg))) x # rest"
proof -
  obtain f where pr: "process_region cfg env region = ebind (get_tagged_resources cfg env region) f"
      and f: "\<And>x. appends (f x) (in_region region)"
    using process_region_scan_then by blast
  obtain v vs where vs: "cfg_tag_values cfg = v # vs" using assms by (cases "cfg_tag_values cfg") auto
  obtain x rest where "snd (get_tagged_resources cfg env region tr)
      = tr @ Call (Get_resources region (cfg_tag_key cfg) v) x # rest"
    using scan_first_event[of env region "cfg_tag_key cfg" v vs "[]" tr] vs
    by (auto simp: get_tagged_resources_def)
  moreover have "\<exists>new. snd (ebind (get_tagged_resources cfg env region) f tr)
      = snd (get_tagged_resources cfg env region tr) @ new"
    by (rule snd_ebind_extends) (rule f)
  then obtain new where "snd (process_region cfg env region tr)
      = snd (get_tagged_resources cfg env region tr) @ new"
    unfolding pr by blast
  ultimately show ?thesis using vs by auto
qed

section \<open>Lemmas: dry run\<close>

lemma get_tagged_only_reads: "appends (get_tagged_resources cfg env region) only_reads"
  by (rule appends_mono[OF get_tagged_resources_reads]) simp

lemma igw_mapping_only_reads: "appends (get_igw_vpc_mapping env region ids) only_reads"
  by (auto simp: appends_def get_igw_vpc_mapping_def ereturn_apply Let_def only_reads_def
      split: outcome.splits)

text \<open>
  In dry-run mode every deleter returns at once and every sleep is skipped, so
  \<open>process_region\<close> reduces to the scan, the categorisation and the gateway lookup.
\<close>

lemma process_region_dry_eq:
  "cfg_dry_run cfg \<Longrightarrow> process_region cfg env region =
     ebind (get_tagged_resources cfg env region) (\<lambda>resources.
       if resources = [] then ereturn ()
       else ebind (elift (categorize empty_buckets resources)) (\<lambda>b.
            ebind (get_igw_vpc_mapping env region (internet_gateways b)) (\<lambda>_. ereturn ())))"
  unfolding process_region_def by (simp only: deleters_dry ebind_ereturn simp_thms if_False)

text \<open>
  C5: with \<open>DRY_RUN\<close> set, \<open>process_region\<close> sends no mutating request and never
  sleeps, whatever the service answers: it only reads.
\<close>

theorem process_region_dry_run_reads_only:
  "cfg_dry_run cfg \<Longrightarrow> appends (process_region cfg env region) only_reads"
  by (simp only: process_region_dry_eq)
    (intro appends_ebind_same get_tagged_only_reads appends_if appends_ereturn appends_elift
      igw_mapping_only_reads; simp)

lemma process_region_dry_run_reads_only_witness:
  "cfg_dry_run (script_config\<lparr>cfg_dry_run := True\<rparr>)
   \<and> appends (process_region (script_config\<lparr>cfg_dry_run := True\<rparr>) refusing_cloud ''us-east-1'') only_reads"
  using process_region_dry_run_reads_only[of "script_config\<lparr>cfg_dry_run := True\<rparr>" refusing_cloud "''us-east-1''"]
  by simp

end
