(* ===== verification/Cleanup_Main.thy ===== *)
theory Cleanup_Main
  imports Region_Cleanup
begin

text \<open>
  \<open>main\<close> of \<open>src/scripts/cleanup.py\<close>. In live mode it reads one line and stops
  (\<open>sys.exit(0)\<close>, before any request) unless the line is \<open>DELETE\<close>; then it runs
  \<open>process_region\<close> for each region of \<open>REGIONS\<close> inside
  \<open>try ... except Exception\<close>, so that an exception ends only its own region.
  \<open>input()\<close>'s answer is the parameter \<open>response\<close>; its \<open>EOFError\<close> on a closed
  standard input is not modelled. The per-region loop is \<open>run_regions\<close>.
\<close>

definition run_regions :: "config \<Rightarrow> cloud \<Rightarrow> string list \<Rightarrow> unit aws" where
  "run_regions cfg env regions =
     eforeach (\<lambda>region. ecatch (process_region cfg env region) (\<lambda>e. ereturn ())) regions"

definition main :: "config \<Rightarrow> cloud \<Rightarrow> string \<Rightarrow> unit aws" where
  "main cfg env response =
     (if \<not> cfg_dry_run cfg \<and> response \<noteq> ''DELETE'' then ereturn ()
      else run_regions cfg env (cfg_regions cfg))"

section \<open>Lemmas\<close>

text \<open>
  The loop over the regions: whatever property \<open>Q\<close> the trace of each region has,
  the whole trace is the regions' traces one after the other, and the loop never
  raises.
\<close>

lemma run_regions_segments:
  assumes Q: "\<And>r tr. \<exists>seg. snd (process_region cfg env r tr) = tr @ seg \<and> Q r seg"
  shows "\<exists>segs. run_regions cfg env regions tr = (Inr (), tr @ concat segs)
           \<and> list_all2 Q regions segs"
proof (induction regions arbitrary: tr)
  case Nil
  then show ?case by (simp add: run_regions_def ereturn_apply)
next
  case (Cons r rs)
  obtain seg where seg: "snd (process_region cfg env r tr) = tr @ seg" "Q r seg"
    using Q by blast
  obtain res where pr: "process_region cfg env r tr = (res, tr @ seg)"
    using seg(1) by (metis prod.collapse)
  have first: "ecatch (process_region cfg env r) (\<lambda>e. ereturn ()) tr = (Inr (), tr @ seg)"
    using pr by (cases res) (simp_all add: ecatch_apply ereturn_apply)
  obtain segs where segs: "run_regions cfg env rs (tr @ seg) = (Inr (), tr @ seg @ concat segs)"
      "list_all2 Q rs segs"
    using Cons.IH[of "tr @ seg"] by auto
  have "run_regions cfg env (r # rs) tr = run_regions cfg env rs (tr @ seg)"
    unfolding run_regions_def eforeach.simps ebind_apply first by simp
  with segs seg(2) show ?case
    by (intro exI[of _ "seg # segs"]) simp
qed

text \<open>
  One region's trace: it stays in the region, its deletions are in phase order, and
  it starts with the scan of the first tag value.
\<close>

lemma process_region_segment:
  "\<exists>seg. snd (process_region cfg env r tr) = tr @ seg \<and> in_region r seg \<and> ranked 0 19 seg
     \<and> (cfg_tag_values cfg \<noteq> [] \<longrightarrow>
          (\<exists>x rest. seg = Call (Get_resources r (cfg_tag_key cfg) (hd (cfg_tag_values cfg))) x # rest))"
proof -
  obtain seg where seg: "snd (process_region cfg env r tr) = tr @ seg" "in_region r seg"
    using appendsD[OF process_region_in_region] by blast
  obtain seg' where "snd (process_region cfg env r tr) = tr @ seg'" "ranked 0 19 seg'"
    using appendsD[OF process_region_phase_order] by blast
  with seg(1) have "ranked 0 19 seg" by simp
  moreover have "cfg_tag_values cfg \<noteq> [] \<longrightarrow>
      (\<exists>x rest. seg = Call (Get_resources r (cfg_tag_key cfg) (hd (cfg_tag_values cfg))) x # rest)"
    using process_region_scans_first[of cfg env r tr] seg(1) by auto
  ultimately show ?thesis using seg by blast
qed

lemma main_confirmed:
  "cfg_dry_run cfg \<or> response = ''DELETE'' \<Longrightarrow> main cfg env response = run_regions cfg env (cfg_regions cfg)"
  by (auto simp: main_def)

text \<open>
  C4: once confirmed (or in dry-run mode), \<open>main\<close> returns normally and its trace is
  one segment per region of \<open>REGIONS\<close>, in order; each segment sends requests to
  its own region only, starts with the scan of the first tag value, and deletes in
  dependency order. A failure in one region never prevents the next.
\<close>

theorem main_processes_regions_in_turn:
  assumes "cfg_tag_values cfg \<noteq> []" and "cfg_dry_run cfg \<or> response = ''DELETE''"
  shows "\<exists>segs. main cfg env response tr = (Inr (), tr @ concat segs)
    \<and> list_all2 (\<lambda>r seg. in_region r seg \<and> respects_dependencies (mutations seg)
        \<and> (\<exists>x rest. seg = Call (Get_resources r (cfg_tag_key cfg) (hd (cfg_tag_values cfg))) x # rest))
      (cfg_regions cfg) segs"
  unfolding main_confirmed[OF assms(2)]
proof (rule run_regions_segments)
  fix r tr
  obtain seg where "snd (process_region cfg env r tr) = tr @ seg" "in_region r seg" "ranked 0 19 seg"
      "cfg_tag_values cfg \<noteq> [] \<longrightarrow>
       (\<exists>x rest. seg = Call (Get_resources r (cfg_tag_key cfg) (hd (cfg_tag_values cfg))) x # rest)"
    using process_region_segment by blast
  with assms(1) show "\<exists>seg. snd (process_region cfg env r tr) = tr @ seg
      \<and> in_region r seg \<and> respects_dependencies (mutations seg)
      \<and> (\<exists>x rest. seg = Call (Get_resources r (cfg_tag_key cfg) (hd (cfg_tag_values cfg))) x # rest)"
    by (auto simp: ranked_def sorted_respects_dependencies)
qed

lemma main_processes_regions_in_turn_witness:
  "cfg_tag_values script_config \<noteq> [] \<and> (cfg_dry_run script_config \<or> ''DELETE'' = ''DELETE'')
   \<and> (\<exists>segs. main script_config refusing_cloud ''DELETE'' [] = (Inr (), concat segs)
    \<and> list_all2 (\<lambda>r seg. in_region r seg \<and> respects_dependencies (mutations seg)
        \<and> (\<exists>x rest. seg = Call (Get_resources r TAG_KEY ''terraform'') x # rest))
      REGIONS segs)"
  using main_processes_regions_in_turn[of script_config "''DELETE''" refusing_cloud "[]"]
  by (simp add: script_config_def TAG_VALUES_def)

text \<open>
  C6: in live mode an answer other than \<open>DELETE\<close> stops \<open>main\<close> before any
  request: the trace is unchanged.
\<close>

theorem main_requires_confirmation:
  "\<not> cfg_dry_run cfg \<Longrightarrow> response \<noteq> ''DELETE'' \<Longrightarrow> main cfg env response tr = (Inr (), tr)"
  by (simp add: main_def ereturn_apply)

lemma main_requires_confirmation_witness:
  "main script_config refusing_cloud ''yes'' [] = (Inr (), [])"
  using main_requires_confirmation[of script_config "''yes''" refusing_cloud "[]"]
  by (simp add: script_config_def DRY_RUN_def)

text \<open>
  C7: \<open>main\<close> never ends with an exception, whatever the configuration, the answer
  and the service: every exception of a region is caught by the loop.
\<close>

theorem main_never_raises: "fst (main cfg env response tr) = Inr ()"
proof -
  have "\<exists>segs. run_regions cfg env (cfg_regions cfg) tr = (Inr (), tr @ concat segs)
      \<and> list_all2 (\<lambda>_ _. True) (cfg_regions cfg) segs"
    by (rule run_regions_segments) (metis appendsD[OF process_region_in_region])
  then show ?thesis by (auto simp: main_def ereturn_apply)
qed

end
