(* ===== verification/Spec2Isabelle.thy ===== *)
theory Spec2Isabelle
  imports Cleanup_Main
begin

text \<open>
  \<^bold>\<open>A verification library for the AWS teardown scripts of the repository.\<close>

  \<^emph>\<open>The program.\<close> \<open>src/scripts/cleanup.py\<close> deletes every AWS resource tagged
  \<open>ManagedBy = terraform | Terraform\<close> in three regions. For each region
  (\<open>main\<close>, which catches any exception of a region and goes on with the next)
  \<open>process_region\<close> lists the tagged resources (\<open>get_tagged_resources\<close>),
  sorts them into nineteen buckets by substring tests on their ARNs, looks up the
  internet gateways' VPC attachments (\<open>get_igw_vpc_mapping\<close>) and calls nineteen
  \<open>delete_*\<close> functions in seven phases separated by fixed sleeps. Each deleter loops
  over its bucket, sends one request per item unless \<open>DRY_RUN\<close>, and logs and
  ignores a \<open>ClientError\<close>. \<open>src/cleanup.py\<close> is a bash script (despite its name)
  that force-deletes one Secrets Manager secret and one CloudWatch log group per region.

  \<^emph>\<open>The theories.\<close>
  \<^item> \<open>Py_Prelude\<close>: Python's \<open>str.split\<close>, \<open>s.split(sep)[-1]\<close>, \<open>join\<close>,
    indexing with \<open>IndexError\<close>, and an exception and state monad
    (\<open>ereturn\<close>, \<open>ebind\<close>, \<open>ecatch\<close>, \<open>eforeach\<close>) in which every statement of
    the scripts is written; lemmas on splitting and on substring tests.
  \<^item> \<open>Cloud_Api\<close>: the globals as a \<open>config\<close> record (\<open>script_config\<close> holds
    the shipped values, \<open>DRY_RUN = False\<close>); the boto3 requests (\<open>api_call\<close>);
    the observable trace (\<open>event\<close>: each request with its outcome, each sleep); AWS
    as an arbitrary function of the trace (\<open>cloud\<close>), so that every theorem holds for
    every behaviour of the service; \<open>appends m P\<close>, the Hoare-style statement
    "\<open>m\<close> only appends events satisfying \<open>P\<close>", with its sequencing rules.
  \<^item> \<open>Tag_Discovery\<close>: \<open>get_tagged_resources\<close> (lines 38--53).
  \<^item> \<open>Arn_Classify\<close>: the \<open>if\<close>/\<open>elif\<close> chain of \<open>process_region\<close>
    (lines 430--484) as \<open>classify_arn\<close>, with \<open>IndexError\<close> as a value.
  \<^item> \<open>Deleters\<close>: the nineteen deleters (lines 55--371), seventeen of them instances
    of one loop \<open>delete_each\<close>, and \<open>get_igw_vpc_mapping\<close> (lines 373--390).
  \<^item> \<open>Dependencies\<close>: the abstract contract, a relation "must be deleted before"
    on resource kinds, taken from the service's documented deletion constraints.
  \<^item> \<open>Region_Cleanup\<close>: the buckets record, \<open>categorize\<close> and
    \<open>process_region\<close> (lines 392--562); the phase ranks of the requests and the
    refinement of the dependency contract by the phase order.

  \<^emph>\<open>What is proved\<close> (the claims C1, C2, ... are named in the text before each
  theorem). The deletion requests of a region respect the dependency contract
  whatever AWS answers (C1); each deleter attempts every item once, in order, and a
  refused request never stops it (C2); a gateway is deleted only right after its
  detach succeeded (C3); the tag scan returns every page of every tag value (C4);
  splitting and joining strings round-trips (C5) and \<open>s.split(c)[-1]\<close> is the
  longest suffix free of \<open>c\<close> (C6).

  \<^emph>\<open>Bounds and fuel.\<close> Every loop of the scripts runs over a finite list, so every
  definition is total by structural recursion (\<open>split_acc\<close> by the length of the
  rest of the string); no fuel is needed.

  \<^emph>\<open>Not modelled.\<close> Logging and colours (output only); the boto3 session and
  client objects (no effect beyond the requests modelled); the real behaviour of
  AWS, which every theorem quantifies over instead.
\<close>

end
